theory Spec2Isabelle
  imports Complex_Main
begin

section \<open>Going to Mars with Python using poliastro: the notebook as a function\<close>

text \<open>
  The repository slice is one Jupyter notebook,
  \<^verbatim>\<open>docs/source/examples/Going to Mars with Python using poliastro.ipynb\<close>.
  Its code cells are a straight-line script over astropy, poliastro and plotly.
  The script is embedded cell by cell (\<open>cell2\<close> ... \<open>cell15\<close>, numbered by the
  notebook's \<^verbatim>\<open>execution_count\<close>); the libraries are a parameter \<open>lib\<close> whose
  operations may raise; every library call and every value a cell displays (its
  \<^verbatim>\<open>Out[n]\<close>) is written to a log, in order.  Quantities are exact rationals:
  none of the properties below depends on floating-point rounding.
\<close>

subsection \<open>Values\<close>

text \<open>A \<^verbatim>\<open>Time\<close> is a point on a uniform axis of SI seconds; a \<^verbatim>\<open>TimeDelta\<close> a
  number of seconds; \<^verbatim>\<open>.xyz\<close> of a Cartesian representation three coordinates.\<close>

type_synonym time = rat
type_synonym timedelta = rat
type_synonym vec = "rat \<times> rat \<times> rat"

datatype body = Sun | Earth | Mars

text \<open>\<^verbatim>\<open>plot_trajectory\<close> is given a body (\<^verbatim>\<open>label=Earth\<close>) or a string
  (\<^verbatim>\<open>label="MSL trajectory"\<close>) as label.\<close>

datatype label = Body_label body | Text_label string

text \<open>Python exceptions.  \<open>ValueError\<close> and \<open>IndexError\<close> are the two the
  interpreter and the containers raise in this script; a library may raise anything.\<close>

datatype exn = ValueError string | IndexError string | LibraryError string

subsection \<open>astropy's \<^verbatim>\<open>time.Time\<close> in scale utc\<close>

definition is_leap_year :: "int \<Rightarrow> bool" where
  "is_leap_year y = (y mod 4 = 0 \<and> (y mod 400 = 0 \<or> y mod 100 \<noteq> 0))"

definition days_in_month :: "int \<Rightarrow> int \<Rightarrow> int" where
  "days_in_month y m =
     (if m = 2 then (if is_leap_year y then 29 else 28)
      else if m = 4 \<or> m = 6 \<or> m = 9 \<or> m = 11 then 30 else 31)"

text \<open>Days from 0001-01-01 (proleptic Gregorian) to the first day of year \<open>y\<close>.\<close>

definition days_before_year :: "int \<Rightarrow> int" where
  "days_before_year y =
     365 * (y - 1) + (y - 1) div 4 - (y - 1) div 100 + (y - 1) div 400"

definition days_before_month :: "int \<Rightarrow> int \<Rightarrow> int" where
  "days_before_month y m = sum_list (map (days_in_month y) [1..m - 1])"

definition day_number :: "int \<Rightarrow> int \<Rightarrow> int \<Rightarrow> int" where
  "day_number y m d = days_before_year y + days_before_month y m + (d - 1)"

text \<open>The days at whose end a leap second was inserted into UTC (1972 to 2016).\<close>

definition leap_second_days :: "(int \<times> int \<times> int) list" where
  "leap_second_days =
     [(1972, 6, 30), (1972, 12, 31), (1973, 12, 31), (1974, 12, 31), (1975, 12, 31),
      (1976, 12, 31), (1977, 12, 31), (1978, 12, 31), (1979, 12, 31), (1981, 6, 30),
      (1982, 6, 30), (1983, 6, 30), (1985, 6, 30), (1987, 12, 31), (1989, 12, 31),
      (1990, 12, 31), (1992, 6, 30), (1993, 6, 30), (1994, 6, 30), (1995, 12, 31),
      (1997, 6, 30), (1998, 12, 31), (2005, 12, 31), (2008, 12, 31), (2012, 6, 30),
      (2015, 6, 30), (2016, 12, 31)]"

text \<open>Leap seconds inserted before day number \<open>n\<close> begins.\<close>

definition leap_seconds_before :: "int \<Rightarrow> int" where
  "leap_seconds_before n =
     int (length (filter (\<lambda>(y, m, d). day_number y m d < n) leap_second_days))"

text \<open>A parsed calendar date and time of day, to the minute.\<close>

record civil =
  year :: int
  month :: int
  day :: int
  hour :: int
  minute :: int

definition digit_val :: "char \<Rightarrow> int option" where
  "digit_val c =
     (let n = (of_char c :: nat)
      in if 48 \<le> n \<and> n \<le> 57 then Some (int n - 48) else None)"

fun digits_val :: "int \<Rightarrow> string \<Rightarrow> int option" where
  "digits_val acc [] = Some acc"
| "digits_val acc (c # cs) =
     (case digit_val c of None \<Rightarrow> None | Some n \<Rightarrow> digits_val (10 * acc + n) cs)"

definition field :: "string \<Rightarrow> nat \<Rightarrow> nat \<Rightarrow> int option" where
  "field s i n = digits_val 0 (take n (drop i s))"

text \<open>The one format the notebook writes: \<^verbatim>\<open>YYYY-MM-DD HH:MM\<close>.\<close>

definition parse_civil :: "string \<Rightarrow> civil option" where
  "parse_civil s =
     (if length s = 16 \<and> s ! 4 = CHR ''-'' \<and> s ! 7 = CHR ''-'' \<and> s ! 10 = CHR '' ''
         \<and> s ! 13 = CHR '':''
      then (case (field s 0 4, field s 5 2, field s 8 2, field s 11 2, field s 14 2) of
              (Some y, Some m, Some d, Some h, Some mi) \<Rightarrow>
                if 1 \<le> m \<and> m \<le> 12 \<and> 1 \<le> d \<and> d \<le> days_in_month y m \<and> h < 24 \<and> mi < 60
                then Some \<lparr>year = y, month = m, day = d, hour = h, minute = mi\<rparr>
                else None
            | _ \<Rightarrow> None)
      else None)"

text \<open>UTC wall-clock seconds since 0001-01-01 00:00: every day counts 86400 s.\<close>

definition wall_clock :: "civil \<Rightarrow> int" where
  "wall_clock c =
     86400 * day_number (year c) (month c) (day c) + 3600 * hour c + 60 * minute c"

text \<open>Elapsed SI seconds: the wall clock plus the leap seconds inserted so far.
  Differences of \<^verbatim>\<open>Time\<close> values in scale utc count leap seconds.\<close>

definition elapsed :: "civil \<Rightarrow> time" where
  "elapsed c =
     of_int (wall_clock c + leap_seconds_before (day_number (year c) (month c) (day c)))"

text \<open>\<^verbatim>\<open>time.Time(s, scale="utc")\<close>.\<close>

definition Time :: "string \<Rightarrow> string \<Rightarrow> exn + time" where
  "Time s scale =
     (if scale \<noteq> ''utc'' then Inl (ValueError ''scale'')
      else case parse_civil s of
             None \<Rightarrow> Inl (ValueError ''Input values did not match any of the formats'')
           | Some c \<Rightarrow> Inr (elapsed c))"

text \<open>\<^verbatim>\<open>tof.to(u.h)\<close>: the duration in hours.\<close>

definition to_hours :: "timedelta \<Rightarrow> rat" where
  "to_hours d = d / 3600"

text \<open>Rounding to \<open>n\<close> decimals, as the recorded outputs print their values
  (eight decimals for a quantity, milliseconds for a time).\<close>

definition round_to :: "nat \<Rightarrow> rat \<Rightarrow> rat" where
  "round_to n x = of_int (floor (x * 10 ^ n + 1 / 2)) / 10 ^ n"

subsection \<open>Containers and destructuring\<close>

text \<open>Python indexing: a negative index counts from the end; out of range raises.\<close>

definition getitem :: "'a list \<Rightarrow> int \<Rightarrow> exn + 'a" where
  "getitem xs i =
     (if 0 \<le> i \<and> i < int (length xs) then Inr (xs ! nat i)
      else if i < 0 \<and> - int (length xs) \<le> i then Inr (xs ! nat (int (length xs) + i))
      else Inl (IndexError ''index out of range''))"

text \<open>The target list \<^verbatim>\<open>(va, vb), = ...\<close> has one target: the iterable on the right
  must produce exactly one item.\<close>

definition unpack_one :: "'a list \<Rightarrow> exn + 'a" where
  "unpack_one xs =
     (case xs of
        [] \<Rightarrow> Inl (ValueError ''not enough values to unpack (expected 1, got 0)'')
      | [x] \<Rightarrow> Inr x
      | _ # _ # _ \<Rightarrow> Inl (ValueError ''too many values to unpack (expected 1)''))"

text \<open>A library function applied to every item of an array; the first item that
  raises ends the call.\<close>

fun traverse :: "('a \<Rightarrow> exn + 'b) \<Rightarrow> 'a list \<Rightarrow> exn + 'b list" where
  "traverse f [] = Inr []"
| "traverse f (x # xs) =
     (case f x of
        Inl e \<Rightarrow> Inl e
      | Inr y \<Rightarrow> (case traverse f xs of Inl e \<Rightarrow> Inl e | Inr ys \<Rightarrow> Inr (y # ys)))"

subsection \<open>poliastro: time grid and orbits\<close>

text \<open>Modelled from the spec: \<^verbatim>\<open>poliastro.util.time_range\<close> is not in the
  repository slice and the spec does not describe it.  The model is the one the recorded
  output of cell 4 shows: \<open>periods\<close> epochs from \<open>start\<close>, equally spaced, the
  last one at \<open>end\<close> (\<open>start + (end - start) * linspace(0, 1, periods)\<close>).\<close>

definition time_range :: "time \<Rightarrow> time \<Rightarrow> nat \<Rightarrow> time list" where
  "time_range start end' periods =
     map (\<lambda>i. start + (end' - start) * (of_nat i / of_nat (periods - 1))) [0..<periods]"

text \<open>Modelled from the spec: \<^verbatim>\<open>Orbit.from_vectors\<close> is not in the repository slice.
  The spec speaks of "an orbit's state vector at an epoch": an orbit is its attractor,
  its position and velocity, and its epoch.\<close>

record orbit =
  attractor :: body
  orbit_r :: vec
  orbit_v :: vec
  epoch :: time

definition from_vectors :: "body \<Rightarrow> vec \<Rightarrow> vec \<Rightarrow> time \<Rightarrow> orbit" where
  "from_vectors a pos vel t = \<lparr>attractor = a, orbit_r = pos, orbit_v = vel, epoch = t\<rparr>"

subsection \<open>The libraries\<close>

text \<open>What the script calls and does not define.  \<open>'f\<close> is the figure: the frame
  \<^verbatim>\<open>OrbitPlotter3D(figure=fig)\<close> draws into \<^verbatim>\<open>fig\<close>, so frame and figure are one
  value here, passed to each plotting call and returned changed.
  \<^item> \<open>solar_system_ephemeris_set\<close>: selecting (and fetching) an ephemeris kernel;
  \<^item> \<open>ephemeris\<close>: the ephemeris lookup of the spec, "given a celestial body
    identifier and a time, returns its position and velocity", for the selected kernel;
  \<^item> \<open>body_k\<close>: a body's gravitational parameter (\<^verbatim>\<open>Sun.k\<close>);
  \<^item> \<open>lambert\<close>: the Lambert solver of the spec, "given a gravitational parameter,
    two position vectors, and a time-of-flight, computes one or more velocity-vector
    pairs";
  \<^item> \<open>kepler\<close>: the propagator of the spec, "given an orbit's state vector at an
    epoch, advances it analytically to a later time";
  \<^item> the plotting calls, which "consume sequences of position vectors and render".\<close>

record 'f library =
  solar_system_ephemeris_set :: "string \<Rightarrow> exn + unit"
  ephemeris :: "string \<Rightarrow> string \<Rightarrow> time \<Rightarrow> exn + vec \<times> vec"
  body_k :: "body \<Rightarrow> rat"
  lambert :: "rat \<Rightarrow> vec \<Rightarrow> vec \<Rightarrow> timedelta \<Rightarrow> exn + (vec \<times> vec) list"
  kepler :: "orbit \<Rightarrow> timedelta \<Rightarrow> exn + vec"
  FigureWidget :: "exn + 'f"
  OrbitPlotter3D :: "'f \<Rightarrow> exn + 'f"
  set_attractor :: "'f \<Rightarrow> body \<Rightarrow> exn + 'f"
  plot_trajectory :: "'f \<Rightarrow> vec list \<Rightarrow> label \<Rightarrow> string \<Rightarrow> exn + 'f"
  set_view :: "'f \<Rightarrow> rat \<Rightarrow> rat \<Rightarrow> rat \<Rightarrow> exn + 'f"
  set_title :: "'f \<Rightarrow> string \<Rightarrow> exn + 'f"
  YouTubeVideo :: "string \<Rightarrow> exn + unit"

text \<open>Modelled from the spec: astropy's \<^verbatim>\<open>get_body_barycentric_posvel(body, times)\<close>
  is not in the repository slice.  It is the spec's ephemeris lookup at every time of the
  array, for the selected kernel; it returns the pair (positions, velocities), and raises
  what the first failing lookup raises.\<close>

definition get_body_barycentric_posvel ::
  "'f library \<Rightarrow> string \<Rightarrow> string \<Rightarrow> time list \<Rightarrow> exn + vec list \<times> vec list" where
  "get_body_barycentric_posvel lib kern name ts =
     (case traverse (ephemeris lib kern name) ts of
        Inl e \<Rightarrow> Inl e
      | Inr pvs \<Rightarrow> Inr (map fst pvs, map snd pvs))"

text \<open>Modelled from the spec: poliastro's \<^verbatim>\<open>propagate(orbit, time_of_flight)\<close> is
  not in the repository slice.  With an array of offsets from the orbit's epoch it is the
  spec's propagator at each offset: the positions along the orbit.\<close>

definition propagate :: "'f library \<Rightarrow> orbit \<Rightarrow> timedelta list \<Rightarrow> exn + vec list" where
  "propagate lib orb offsets = traverse (kepler lib orb) offsets"

subsection \<open>Running cells: trace, outputs, exceptions\<close>

text \<open>One entry per library call, with its arguments.\<close>

datatype 'f event =
    Ev_set_ephemeris string
  | Ev_posvel string string "time list"
  | Ev_lambert rat vec vec timedelta
  | Ev_FigureWidget
  | Ev_OrbitPlotter3D 'f
  | Ev_set_attractor 'f body
  | Ev_plot_trajectory 'f "vec list" label string
  | Ev_propagate orbit "timedelta list"
  | Ev_set_view 'f rat rat rat
  | Ev_set_title 'f string
  | Ev_YouTubeVideo string

text \<open>What a cell displays as its \<^verbatim>\<open>Out[n]\<close>.\<close>

datatype 'f display =
    Out_state string
  | Out_quantity rat string
  | Out_times "time list"
  | Out_vectors "vec list"
  | Out_figure 'f
  | Out_video string

text \<open>The log of a run: library calls and displayed outputs, in the order they happen.\<close>

datatype 'f effect = Called "'f event" | Displayed "'f display"

type_synonym 'f log = "'f effect list"

fun trace :: "'f log \<Rightarrow> 'f event list" where
  "trace [] = []"
| "trace (Called ev # l) = ev # trace l"
| "trace (Displayed d # l) = trace l"

fun outputs :: "'f log \<Rightarrow> 'f display list" where
  "outputs [] = []"
| "outputs (Called ev # l) = outputs l"
| "outputs (Displayed d # l) = d # outputs l"

text \<open>A statement: from the log so far to a value or the exception raised, and the log
  after it.  The script has no \<^verbatim>\<open>try\<close>: \<open>bnd\<close>, the sequencing of statements,
  stops at the first exception and passes it on.\<close>

type_synonym ('f, 'a) stmt = "'f log \<Rightarrow> (exn + 'a) \<times> 'f log"

definition ret :: "'a \<Rightarrow> ('f, 'a) stmt" where
  "ret x = (\<lambda>s. (Inr x, s))"

definition bnd :: "('f, 'a) stmt \<Rightarrow> ('a \<Rightarrow> ('f, 'b) stmt) \<Rightarrow> ('f, 'b) stmt" where
  "bnd m f = (\<lambda>s. case m s of (Inl e, s') \<Rightarrow> (Inl e, s') | (Inr x, s') \<Rightarrow> f x s')"

text \<open>An operation on values that may raise (no library call).\<close>

definition lift :: "exn + 'a \<Rightarrow> ('f, 'a) stmt" where
  "lift res = (\<lambda>s. (res, s))"

text \<open>A library call: written to the trace, then its value or its exception.\<close>

definition call :: "'f event \<Rightarrow> exn + 'a \<Rightarrow> ('f, 'a) stmt" where
  "call ev res = (\<lambda>s. (res, s @ [Called ev]))"

definition display :: "'f display \<Rightarrow> ('f, unit) stmt" where
  "display d = (\<lambda>s. (Inr (), s @ [Displayed d]))"

subsection \<open>The code cells\<close>

text \<open>Cells 1 and 12 only import names and cell 14 is a comment: they have no
  statement to model.  A cell takes the variables it reads and returns the ones it
  assigns.\<close>

text \<open>\<^verbatim>\<open>In [2]: solar_system_ephemeris.set("jpl")\<close>.  The selected kernel is global
  state of astropy; it is returned here and passed to the lookups.\<close>

definition cell2 :: "'f library \<Rightarrow> ('f, string) stmt" where
  "cell2 lib =
     bnd (call (Ev_set_ephemeris ''jpl'') (solar_system_ephemeris_set lib ''jpl'')) (\<lambda>_.
     bnd (display (Out_state ''jpl'')) (\<lambda>_.
     ret ''jpl''))"

text \<open>\<^verbatim>\<open>N = 50\<close>, read by cell 4.\<close>

definition N :: nat where
  "N = 50"

text \<open>\<^verbatim>\<open>In [3]\<close>: the two dates, \<^verbatim>\<open>tof = date_arrival - date_launch\<close>, and
  \<^verbatim>\<open>tof.to(u.h)\<close> displayed.\<close>

definition cell3 :: "('f, time \<times> time \<times> timedelta) stmt" where
  "cell3 =
     bnd (lift (Time ''2011-11-26 15:02'' ''utc'')) (\<lambda>date_launch.
     bnd (lift (Time ''2012-08-06 05:17'' ''utc'')) (\<lambda>date_arrival.
     bnd (ret (date_arrival - date_launch)) (\<lambda>tof.
     bnd (display (Out_quantity (to_hours tof) ''h'')) (\<lambda>_.
     ret (date_launch, date_arrival, tof)))))"

text \<open>\<^verbatim>\<open>In [4]: times_vector = time_range(date_launch, end=date_arrival, periods=N)\<close>,
  and \<^verbatim>\<open>times_vector[:5]\<close> displayed.\<close>

definition cell4 :: "time \<Rightarrow> time \<Rightarrow> ('f, time list) stmt" where
  "cell4 date_launch date_arrival =
     bnd (ret (time_range date_launch date_arrival N)) (\<lambda>times_vector.
     bnd (display (Out_times (take 5 times_vector))) (\<lambda>_.
     ret times_vector))"

text \<open>\<^verbatim>\<open>In [5]: rr_earth, vv_earth = get_body_barycentric_posvel("earth", times_vector)\<close>\<close>

definition cell5 :: "'f library \<Rightarrow> string \<Rightarrow> time list \<Rightarrow> ('f, vec list \<times> vec list) stmt" where
  "cell5 lib solar_system_ephemeris times_vector =
     call (Ev_posvel solar_system_ephemeris ''earth'' times_vector)
       (get_body_barycentric_posvel lib solar_system_ephemeris ''earth'' times_vector)"

text \<open>\<^verbatim>\<open>In [6]: rr_earth[:3]\<close> and \<^verbatim>\<open>In [7]: vv_earth[:3]\<close>\<close>

definition cell6 :: "vec list \<Rightarrow> ('f, unit) stmt" where
  "cell6 rr_earth = display (Out_vectors (take 3 rr_earth))"

definition cell7 :: "vec list \<Rightarrow> ('f, unit) stmt" where
  "cell7 vv_earth = display (Out_vectors (take 3 vv_earth))"

text \<open>\<^verbatim>\<open>In [8]: rr_mars, vv_mars = get_body_barycentric_posvel("mars", times_vector)\<close>\<close>

definition cell8 :: "'f library \<Rightarrow> string \<Rightarrow> time list \<Rightarrow> ('f, vec list \<times> vec list) stmt" where
  "cell8 lib solar_system_ephemeris times_vector =
     call (Ev_posvel solar_system_ephemeris ''mars'' times_vector)
       (get_body_barycentric_posvel lib solar_system_ephemeris ''mars'' times_vector)"

text \<open>\<^verbatim>\<open>In [9]: rr_mars[:3]\<close> and \<^verbatim>\<open>In [10]: vv_mars[:3]\<close>\<close>

definition cell9 :: "vec list \<Rightarrow> ('f, unit) stmt" where
  "cell9 rr_mars = display (Out_vectors (take 3 rr_mars))"

definition cell10 :: "vec list \<Rightarrow> ('f, unit) stmt" where
  "cell10 vv_mars = display (Out_vectors (take 3 vv_mars))"

text \<open>\<^verbatim>\<open>In [11]\<close>:
  \<^verbatim>\<open>
  r0 = rr_earth[0].xyz
  rf = rr_mars[-1].xyz
  (va, vb), = iod.lambert(Sun.k, r0, rf, tof)
  ss0_trans = Orbit.from_vectors(Sun, r0, va, date_launch)
  ssf_trans = Orbit.from_vectors(Sun, rf, vb, date_arrival)
  \<close>\<close>

definition cell11 ::
  "'f library \<Rightarrow> vec list \<Rightarrow> vec list \<Rightarrow> timedelta \<Rightarrow> time \<Rightarrow> time \<Rightarrow>
     ('f, vec \<times> vec \<times> vec \<times> vec \<times> orbit \<times> orbit) stmt" where
  "cell11 lib rr_earth rr_mars tof date_launch date_arrival =
     bnd (lift (getitem rr_earth 0)) (\<lambda>r0.
     bnd (lift (getitem rr_mars (- 1))) (\<lambda>rf.
     bnd (call (Ev_lambert (body_k lib Sun) r0 rf tof) (lambert lib (body_k lib Sun) r0 rf tof))
       (\<lambda>solutions.
     bnd (lift (unpack_one solutions)) (\<lambda>(va, vb).
     bnd (ret (from_vectors Sun r0 va date_launch)) (\<lambda>ss0_trans.
     bnd (ret (from_vectors Sun rf vb date_arrival)) (\<lambda>ssf_trans.
     ret (r0, rf, va, vb, ss0_trans, ssf_trans)))))))"

text \<open>The colours of cell 13.\<close>

definition color_earth0 :: string where "color_earth0 = ''#3d4cd5''"
definition color_earthf :: string where "color_earthf = ''#525fd5''"
definition color_mars0 :: string where "color_mars0 = ''#ec3941''"
definition color_marsf :: string where "color_marsf = ''#ec1f28''"
definition color_sun :: string where "color_sun = ''#ffcc00''"
definition color_orbit :: string where "color_orbit = ''#888888''"
definition color_trans :: string where "color_trans = ''#444444''"

text \<open>\<^verbatim>\<open>In [13]\<close>:
  \<^verbatim>\<open>
  fig = FigureWidget()
  frame = OrbitPlotter3D(figure=fig)
  frame.set_attractor(Sun)
  frame.plot_trajectory(rr_earth, label=Earth, color=color_earth0)
  frame.plot_trajectory(rr_mars, label=Mars, color=color_marsf)
  frame.plot_trajectory(
      propagate(ss0_trans, time.TimeDelta(times_vector - ss0_trans.epoch)),
      label="MSL trajectory",
      color=color_trans,
  )
  frame.set_view(30 * u.deg, 260 * u.deg, distance=3 * u.km)
  fig.layout.title = "MSL Mission: from Earth to Mars"
  fig
  \<close>\<close>

definition cell13 ::
  "'f library \<Rightarrow> vec list \<Rightarrow> vec list \<Rightarrow> time list \<Rightarrow> orbit \<Rightarrow> ('f, 'f) stmt" where
  "cell13 lib rr_earth rr_mars times_vector ss0_trans =
     bnd (call Ev_FigureWidget (FigureWidget lib)) (\<lambda>fig.
     bnd (call (Ev_OrbitPlotter3D fig) (OrbitPlotter3D lib fig)) (\<lambda>frame.
     bnd (call (Ev_set_attractor frame Sun) (set_attractor lib frame Sun)) (\<lambda>frame.
     bnd (call (Ev_plot_trajectory frame rr_earth (Body_label Earth) color_earth0)
            (plot_trajectory lib frame rr_earth (Body_label Earth) color_earth0)) (\<lambda>frame.
     bnd (call (Ev_plot_trajectory frame rr_mars (Body_label Mars) color_marsf)
            (plot_trajectory lib frame rr_mars (Body_label Mars) color_marsf)) (\<lambda>frame.
     bnd (ret (map (\<lambda>t. t - epoch ss0_trans) times_vector)) (\<lambda>offsets.
     bnd (call (Ev_propagate ss0_trans offsets) (propagate lib ss0_trans offsets))
       (\<lambda>trajectory.
     bnd (call (Ev_plot_trajectory frame trajectory (Text_label ''MSL trajectory'') color_trans)
            (plot_trajectory lib frame trajectory (Text_label ''MSL trajectory'') color_trans))
       (\<lambda>frame.
     bnd (call (Ev_set_view frame 30 260 3) (set_view lib frame 30 260 3)) (\<lambda>frame.
     bnd (call (Ev_set_title frame ''MSL Mission: from Earth to Mars'')
            (set_title lib frame ''MSL Mission: from Earth to Mars'')) (\<lambda>fig.
     bnd (display (Out_figure fig)) (\<lambda>_.
     ret fig)))))))))))"

text \<open>\<^verbatim>\<open>In [15]: YouTubeVideo('zSgiXGELjbc')\<close>\<close>

definition cell15 :: "'f library \<Rightarrow> ('f, unit) stmt" where
  "cell15 lib =
     bnd (call (Ev_YouTubeVideo ''zSgiXGELjbc'') (YouTubeVideo lib ''zSgiXGELjbc'')) (\<lambda>_.
     display (Out_video ''zSgiXGELjbc''))"

subsection \<open>The notebook, run from the top\<close>

text \<open>The cells run in the order of the file, each once, the names of one cell
  visible to the next; a cell that raises stops the run (Run All).\<close>

text \<open>Cells 2 to 10: dates, time grid and ephemerides.\<close>

definition cells_2_to_10 ::
  "'f library \<Rightarrow>
     ('f, string \<times> time \<times> time \<times> timedelta \<times> time list \<times>
          vec list \<times> vec list \<times> vec list \<times> vec list) stmt" where
  "cells_2_to_10 lib =
     bnd (cell2 lib) (\<lambda>solar_system_ephemeris.
     bnd cell3 (\<lambda>(date_launch, date_arrival, tof).
     bnd (cell4 date_launch date_arrival) (\<lambda>times_vector.
     bnd (cell5 lib solar_system_ephemeris times_vector) (\<lambda>(rr_earth, vv_earth).
     bnd (cell6 rr_earth) (\<lambda>_.
     bnd (cell7 vv_earth) (\<lambda>_.
     bnd (cell8 lib solar_system_ephemeris times_vector) (\<lambda>(rr_mars, vv_mars).
     bnd (cell9 rr_mars) (\<lambda>_.
     bnd (cell10 vv_mars) (\<lambda>_.
     ret (solar_system_ephemeris, date_launch, date_arrival, tof, times_vector,
          rr_earth, vv_earth, rr_mars, vv_mars))))))))))"

text \<open>Cells 12 to 15: the figure and the video.\<close>

definition cells_12_to_15 ::
  "'f library \<Rightarrow> vec list \<Rightarrow> vec list \<Rightarrow> time list \<Rightarrow> orbit \<Rightarrow> ('f, 'f) stmt" where
  "cells_12_to_15 lib rr_earth rr_mars times_vector ss0_trans =
     bnd (cell13 lib rr_earth rr_mars times_vector ss0_trans) (\<lambda>fig.
     bnd (cell15 lib) (\<lambda>_.
     ret fig))"

text \<open>The names bound when the last cell has run.  \<open>ssf_trans\<close> is kept in an
  extension of the record, so that a script that never assigns it has a namespace too.\<close>

record 'f bindings =
  solar_system_ephemeris :: string
  date_launch :: time
  date_arrival :: time
  tof :: timedelta
  times_vector :: "time list"
  rr_earth :: "vec list"
  vv_earth :: "vec list"
  rr_mars :: "vec list"
  vv_mars :: "vec list"
  r0 :: vec
  rf :: vec
  va :: vec
  vb :: vec
  ss0_trans :: orbit
  fig :: 'f

record 'f namespace = "'f bindings" +
  ssf_trans :: orbit

definition notebook :: "'f library \<Rightarrow> ('f, 'f namespace) stmt" where
  "notebook lib =
     bnd (cells_2_to_10 lib)
       (\<lambda>(solar_system_ephemeris, date_launch, date_arrival, tof, times_vector,
          rr_earth, vv_earth, rr_mars, vv_mars).
     bnd (cell11 lib rr_earth rr_mars tof date_launch date_arrival)
       (\<lambda>(r0, rf, va, vb, ss0_trans, ssf_trans).
     bnd (cells_12_to_15 lib rr_earth rr_mars times_vector ss0_trans) (\<lambda>fig.
     ret \<lparr>solar_system_ephemeris = solar_system_ephemeris,
          date_launch = date_launch, date_arrival = date_arrival, tof = tof,
          times_vector = times_vector,
          rr_earth = rr_earth, vv_earth = vv_earth, rr_mars = rr_mars, vv_mars = vv_mars,
          r0 = r0, rf = rf, va = va, vb = vb, ss0_trans = ss0_trans, fig = fig,
          ssf_trans = ssf_trans\<rparr>)))"

text \<open>A run of the notebook: the final namespace or the exception that stopped it,
  and the log.\<close>

definition run :: "'f library \<Rightarrow> (exn + 'f namespace) \<times> 'f log" where
  "run lib = notebook lib []"

subsection \<open>The notebook without the assignment to \<open>ssf_trans\<close>\<close>

text \<open>Cell 11 without its last line, and the notebook with that cell.\<close>

definition cell11_without_ssf_trans ::
  "'f library \<Rightarrow> vec list \<Rightarrow> vec list \<Rightarrow> timedelta \<Rightarrow> time \<Rightarrow>
     ('f, vec \<times> vec \<times> vec \<times> vec \<times> orbit) stmt" where
  "cell11_without_ssf_trans lib rr_earth' rr_mars' tof' date_launch' =
     bnd (lift (getitem rr_earth' 0)) (\<lambda>r0.
     bnd (lift (getitem rr_mars' (- 1))) (\<lambda>rf.
     bnd (call (Ev_lambert (body_k lib Sun) r0 rf tof') (lambert lib (body_k lib Sun) r0 rf tof'))
       (\<lambda>solutions.
     bnd (lift (unpack_one solutions)) (\<lambda>(va, vb).
     bnd (ret (from_vectors Sun r0 va date_launch')) (\<lambda>ss0_trans.
     ret (r0, rf, va, vb, ss0_trans))))))"

definition notebook_without_ssf_trans :: "'f library \<Rightarrow> ('f, 'f bindings) stmt" where
  "notebook_without_ssf_trans lib =
     bnd (cells_2_to_10 lib)
       (\<lambda>(solar_system_ephemeris, date_launch, date_arrival, tof, times_vector,
          rr_earth, vv_earth, rr_mars, vv_mars).
     bnd (cell11_without_ssf_trans lib rr_earth rr_mars tof date_launch)
       (\<lambda>(r0, rf, va, vb, ss0_trans).
     bnd (cells_12_to_15 lib rr_earth rr_mars times_vector ss0_trans) (\<lambda>fig.
     ret \<lparr>solar_system_ephemeris = solar_system_ephemeris,
          date_launch = date_launch, date_arrival = date_arrival, tof = tof,
          times_vector = times_vector,
          rr_earth = rr_earth, vv_earth = vv_earth, rr_mars = rr_mars, vv_mars = vv_mars,
          r0 = r0, rf = rf, va = va, vb = vb, ss0_trans = ss0_trans, fig = fig\<rparr>)))"

definition run_without_ssf_trans :: "'f library \<Rightarrow> (exn + 'f bindings) \<times> 'f log" where
  "run_without_ssf_trans lib = notebook_without_ssf_trans lib []"

subsection \<open>Reading a log\<close>

text \<open>The exception a library call raises, if it raises.\<close>

fun raised :: "exn + 'a \<Rightarrow> exn option" where
  "raised (Inl e) = Some e"
| "raised (Inr x) = None"

fun response :: "'f library \<Rightarrow> 'f event \<Rightarrow> exn option" where
  "response lib (Ev_set_ephemeris n) = raised (solar_system_ephemeris_set lib n)"
| "response lib (Ev_posvel kern b ts) = raised (get_body_barycentric_posvel lib kern b ts)"
| "response lib (Ev_lambert k a b d) = raised (lambert lib k a b d)"
| "response lib Ev_FigureWidget = raised (FigureWidget lib)"
| "response lib (Ev_OrbitPlotter3D f) = raised (OrbitPlotter3D lib f)"
| "response lib (Ev_set_attractor f b) = raised (set_attractor lib f b)"
| "response lib (Ev_plot_trajectory f ps l c) = raised (plot_trajectory lib f ps l c)"
| "response lib (Ev_propagate orb ds) = raised (propagate lib orb ds)"
| "response lib (Ev_set_view f a b d) = raised (set_view lib f a b d)"
| "response lib (Ev_set_title f t) = raised (set_title lib f t)"
| "response lib (Ev_YouTubeVideo i) = raised (YouTubeVideo lib i)"

text \<open>The three kinds of call the spec counts.\<close>

fun is_lambert_call :: "'f event \<Rightarrow> bool" where
  "is_lambert_call (Ev_lambert k a b d) = True"
| "is_lambert_call _ = False"

fun is_ephemeris_lookup :: "'f event \<Rightarrow> bool" where
  "is_ephemeris_lookup (Ev_posvel kern b ts) = True"
| "is_ephemeris_lookup _ = False"

fun is_plotting_call :: "'f event \<Rightarrow> bool" where
  "is_plotting_call (Ev_plot_trajectory f ps l c) = True"
| "is_plotting_call _ = False"

definition count_calls :: "('f event \<Rightarrow> bool) \<Rightarrow> 'f log \<Rightarrow> nat" where
  "count_calls p l = length (filter p (trace l))"

subsection \<open>A small library to run the notebook on\<close>

text \<open>Every call succeeds.  The planets move on straight lines, the solver joins the
  two points by a straight line, and a figure is the list of what was drawn into it.\<close>

record figure =
  figure_attractor :: "body option"
  figure_trajectories :: "(vec list \<times> label \<times> string) list"
  figure_view :: "(rat \<times> rat \<times> rat) option"
  figure_title :: string

definition toy_ephemeris :: "string \<Rightarrow> string \<Rightarrow> time \<Rightarrow> exn + vec \<times> vec" where
  "toy_ephemeris kern b t =
     (if b = ''earth'' then Inr ((t, 0, 0), (1, 0, 0))
      else if b = ''mars'' then Inr ((0, 2 * t, 0), (0, 2, 0))
      else Inl (LibraryError ''unknown body''))"

definition toy_lambert :: "rat \<Rightarrow> vec \<Rightarrow> vec \<Rightarrow> timedelta \<Rightarrow> exn + (vec \<times> vec) list" where
  "toy_lambert k a b d =
     (case (a, b) of
        ((x0, y0, z0), (x1, y1, z1)) \<Rightarrow>
          (let w = ((x1 - x0) / d, (y1 - y0) / d, (z1 - z0) / d) in Inr [(w, w)]))"

definition toy_kepler :: "orbit \<Rightarrow> timedelta \<Rightarrow> exn + vec" where
  "toy_kepler orb d =
     (case (orbit_r orb, orbit_v orb) of
        ((x, y, z), (vx, vy, vz)) \<Rightarrow> Inr (x + vx * d, y + vy * d, z + vz * d))"

definition toy_library :: "figure library" where
  "toy_library =
     \<lparr>solar_system_ephemeris_set = (\<lambda>n. Inr ()),
      ephemeris = toy_ephemeris,
      body_k = (\<lambda>b. 1),
      lambert = toy_lambert,
      kepler = toy_kepler,
      FigureWidget =
        Inr \<lparr>figure_attractor = None, figure_trajectories = [], figure_view = None,
             figure_title = []\<rparr>,
      OrbitPlotter3D = (\<lambda>f. Inr f),
      set_attractor = (\<lambda>f b. Inr (f\<lparr>figure_attractor := Some b\<rparr>)),
      plot_trajectory =
        (\<lambda>f ps l c. Inr (f\<lparr>figure_trajectories := figure_trajectories f @ [(ps, l, c)]\<rparr>)),
      set_view = (\<lambda>f a b d. Inr (f\<lparr>figure_view := Some (a, b, d)\<rparr>)),
      set_title = (\<lambda>f t. Inr (f\<lparr>figure_title := t\<rparr>)),
      YouTubeVideo = (\<lambda>i. Inr ())\<rparr>"

text \<open>The same library with a solver that finds no transfer, with one that finds two,
  and with an ephemeris that has no data for Mars.\<close>

definition toy_library_no_solution :: "figure library" where
  "toy_library_no_solution = toy_library\<lparr>lambert := (\<lambda>k a b d. Inr [])\<rparr>"

definition toy_library_two_solutions :: "figure library" where
  "toy_library_two_solutions =
     toy_library\<lparr>lambert := (\<lambda>k a b d. Inr [((0, 0, 0), (0, 0, 0)), ((1, 0, 0), (1, 0, 0))])\<rparr>"

definition toy_library_no_mars :: "figure library" where
  "toy_library_no_mars =
     toy_library\<lparr>ephemeris :=
       (\<lambda>kern b t. if b = ''mars'' then Inl (LibraryError ''no ephemeris data'')
                   else toy_ephemeris kern b t)\<rparr>"

subsection \<open>Exceptions are never caught\<close>

text \<open>A statement passes library exceptions on: whenever a call it makes raises, that
  call is the last entry it adds to the log, and the statement ends with that exception.\<close>

definition propagates :: "'f library \<Rightarrow> ('f, 'a) stmt \<Rightarrow> bool" where
  "propagates lib m =
     (\<forall>s res s'. m s = (res, s') \<longrightarrow>
        (\<exists>new. s' = s @ new \<and>
           (\<forall>ev e. Called ev \<in> set new \<longrightarrow> response lib ev = Some e \<longrightarrow>
              res = Inl e \<and> last new = Called ev)))"

section \<open>Properties of the parts\<close>

subsection \<open>The dates of the notebook\<close>

lemma parse_launch:
  "parse_civil ''2011-11-26 15:02''
     = Some \<lparr>year = 2011, month = 11, day = 26, hour = 15, minute = 2\<rparr>"
  by code_simp

lemma parse_arrival:
  "parse_civil ''2012-08-06 05:17''
     = Some \<lparr>year = 2012, month = 8, day = 6, hour = 5, minute = 17\<rparr>"
  by code_simp

lemma Time_launch: "Time ''2011-11-26 15:02'' ''utc'' = Inr 63457916544"
  by code_simp

lemma Time_arrival: "Time ''2012-08-06 05:17'' ''utc'' = Inr 63479827045"
  by code_simp

lemma wall_clock_span:
  "wall_clock \<lparr>year = 2012, month = 8, day = 6, hour = 5, minute = 17\<rparr>
     - wall_clock \<lparr>year = 2011, month = 11, day = 26, hour = 15, minute = 2\<rparr>
   = 253 * 86400 + 14 * 3600 + 15 * 60"
  by code_simp

lemma one_leap_second:
  "leap_seconds_before (day_number 2012 8 6) - leap_seconds_before (day_number 2011 11 26) = 1"
  by code_simp

lemma recorded_Out3: "round_to 8 (to_hours 21910501) = 608625027778 / 100000000"
  by code_simp

text \<open>The recorded output of cell 4 shows the first five epochs
  \<^verbatim>\<open>2011-11-26 15:02:00.000\<close>, \<^verbatim>\<open>2011-12-01 19:14:33.082\<close>,
  \<^verbatim>\<open>2011-12-06 23:27:06.163\<close>, \<^verbatim>\<open>2011-12-12 03:39:39.245\<close> and
  \<^verbatim>\<open>2011-12-17 07:52:12.327\<close>: 0 s, 5 d 04:12:33.082, 10 d 08:25:06.163,
  15 d 12:37:39.245 and 20 d 16:50:12.327 after the launch.  The model of
  \<open>time_range\<close> gives these offsets, to the millisecond.\<close>

lemma recorded_Out4:
  "map (\<lambda>t. round_to 3 (t - 63457916544)) (take 5 (time_range 63457916544 63479827045 N))
     = [0, 447153082 / 1000, 894306163 / 1000, 1341459245 / 1000, 1788612327 / 1000]"
  by code_simp

subsection \<open>Arrays\<close>

lemma traverse_length: "traverse f xs = Inr ys \<Longrightarrow> length ys = length xs"
  by (induction xs arbitrary: ys) (auto split: sum.splits)

lemma traverse_nth:
  "traverse f xs = Inr ys \<Longrightarrow> i < length xs \<Longrightarrow> f (xs ! i) = Inr (ys ! i)"
proof (induction xs arbitrary: ys i)
  case Nil
  then show ?case by simp
next
  case (Cons x xs)
  then show ?case by (cases i) (auto split: sum.splits)
qed

lemma posvel_length:
  assumes "get_body_barycentric_posvel lib kern b ts = Inr (ps, vs)"
  shows "length ps = length ts \<and> length vs = length ts"
  using assms
  by (auto simp: get_body_barycentric_posvel_def split: sum.splits dest: traverse_length)

lemma posvel_nth:
  assumes "get_body_barycentric_posvel lib kern b ts = Inr (ps, vs)" and "i < length ts"
  shows "ephemeris lib kern b (ts ! i) = Inr (ps ! i, vs ! i)"
proof -
  from assms(1) obtain pvs where t: "traverse (ephemeris lib kern b) ts = Inr pvs"
    and ps: "ps = map fst pvs" and vs: "vs = map snd pvs"
    by (auto simp: get_body_barycentric_posvel_def split: sum.splits)
  from traverse_length [OF t] assms(2) have "i < length pvs" by simp
  with traverse_nth [OF t assms(2)] ps vs show ?thesis by simp
qed

lemma length_time_range: "length (time_range a b n) = n"
  by (simp add: time_range_def)

lemma nth_time_range_0: "0 < n \<Longrightarrow> time_range a b n ! 0 = a"
  by (simp add: time_range_def)

lemma hd_time_range: "0 < n \<Longrightarrow> hd (time_range a b n) = a"
  by (simp add: time_range_def hd_map upt_conv_Cons)

lemma last_time_range: "1 < n \<Longrightarrow> last (time_range a b n) = b"
  by (simp add: time_range_def last_map)

lemma getitem_first: "getitem xs 0 = Inr x \<Longrightarrow> xs \<noteq> [] \<and> x = xs ! 0"
  by (auto simp: getitem_def split: if_splits)

lemma getitem_last:
  assumes "getitem xs (- 1) = Inr x"
  shows "xs \<noteq> [] \<and> x = last xs"
proof -
  from assms have ne: "xs \<noteq> []" and x: "x = xs ! nat (int (length xs) + - 1)"
    by (auto simp: getitem_def split: if_splits)
  have "nat (int (length xs) + - 1) = length xs - 1" by arith
  with x ne show ?thesis by (simp add: last_conv_nth)
qed

lemma unpack_one_Inr: "unpack_one xs = Inr x \<longleftrightarrow> xs = [x]"
  by (auto simp: unpack_one_def split: list.splits)

lemma unpack_one_Inl:
  "unpack_one xs = Inl e \<longleftrightarrow>
     (xs = [] \<and> e = ValueError ''not enough values to unpack (expected 1, got 0)'') \<or>
     (2 \<le> length xs \<and> e = ValueError ''too many values to unpack (expected 1)'')"
  by (auto simp: unpack_one_def split: list.splits)

subsection \<open>Logs\<close>

lemma trace_append: "trace (l @ m) = trace l @ trace m"
  by (induction l rule: trace.induct) auto

lemma Called_in_set_trace: "Called ev \<in> set l \<longleftrightarrow> ev \<in> set (trace l)"
  by (induction l rule: trace.induct) auto

lemmas stmt_defs = bnd_def ret_def lift_def call_def display_def

subsection \<open>What each group of cells does\<close>

lemmas cells_2_to_10_defs = cells_2_to_10_def cell2_def cell3_def cell4_def cell5_def
  cell6_def cell7_def cell8_def cell9_def cell10_def

lemmas cells_12_to_15_defs = cells_12_to_15_def cell13_def cell15_def

lemma cells_2_to_10_Inr:
  assumes "cells_2_to_10 lib s = (Inr (kern, dl, da, tf, tv, rre, vve, rrm, vvm), s')"
  shows "kern = ''jpl'' \<and> dl = 63457916544 \<and> da = 63479827045 \<and> tf = da - dl \<and>
     tv = time_range dl da N \<and>
     solar_system_ephemeris_set lib ''jpl'' = Inr () \<and>
     get_body_barycentric_posvel lib ''jpl'' ''earth'' tv = Inr (rre, vve) \<and>
     get_body_barycentric_posvel lib ''jpl'' ''mars'' tv = Inr (rrm, vvm) \<and>
     s' = s @ [Called (Ev_set_ephemeris ''jpl''), Displayed (Out_state ''jpl''),
               Displayed (Out_quantity (to_hours tf) ''h''), Displayed (Out_times (take 5 tv)),
               Called (Ev_posvel ''jpl'' ''earth'' tv),
               Displayed (Out_vectors (take 3 rre)), Displayed (Out_vectors (take 3 vve)),
               Called (Ev_posvel ''jpl'' ''mars'' tv),
               Displayed (Out_vectors (take 3 rrm)), Displayed (Out_vectors (take 3 vvm))]"
  using assms
  by (auto simp: cells_2_to_10_defs stmt_defs Time_launch Time_arrival
      split: sum.splits prod.splits)

lemma cells_2_to_10_no_lambert:
  assumes "cells_2_to_10 lib s = (res, s')"
  shows "\<exists>new. s' = s @ new \<and> filter is_lambert_call (trace new) = []"
  using assms
  by (auto simp: cells_2_to_10_defs stmt_defs Time_launch Time_arrival
      split: sum.splits prod.splits)

lemma cell11_Inr:
  assumes "cell11 lib xs ys d t1 t2 s = (Inr (a, b, p, q, o1, o2), s')"
  shows "getitem xs 0 = Inr a \<and> getitem ys (- 1) = Inr b \<and>
     lambert lib (body_k lib Sun) a b d = Inr [(p, q)] \<and>
     o1 = from_vectors Sun a p t1 \<and> o2 = from_vectors Sun b q t2 \<and>
     s' = s @ [Called (Ev_lambert (body_k lib Sun) a b d)]"
  using assms
  by (auto simp: cell11_def stmt_defs unpack_one_Inr split: sum.splits prod.splits)

lemma cell11_Inl:
  assumes "cell11 lib xs ys d t1 t2 s = (Inl e, s')"
  shows "s' = s \<or>
     (\<exists>a b. getitem xs 0 = Inr a \<and> getitem ys (- 1) = Inr b \<and>
        s' = s @ [Called (Ev_lambert (body_k lib Sun) a b d)])"
  using assms
  by (auto simp: cell11_def stmt_defs split: sum.splits prod.splits)

lemma cell11_unpack:
  assumes "getitem xs 0 = Inr a" and "getitem ys (- 1) = Inr b"
    and "lambert lib (body_k lib Sun) a b d = Inr sols"
  shows "cell11 lib xs ys d t1 t2 s =
     (case unpack_one sols of
        Inl e \<Rightarrow> (Inl e, s @ [Called (Ev_lambert (body_k lib Sun) a b d)])
      | Inr (p, q) \<Rightarrow>
          (Inr (a, b, p, q, from_vectors Sun a p t1, from_vectors Sun b q t2),
           s @ [Called (Ev_lambert (body_k lib Sun) a b d)]))"
  using assms
  by (auto simp: cell11_def stmt_defs split: sum.splits prod.splits)

lemma cells_12_to_15_Inr:
  assumes "cells_12_to_15 lib xs ys tv orb s = (Inr f, s')"
  shows "\<exists>f0 f1 f2 f3 f4 traj f5 f6.
     FigureWidget lib = Inr f0 \<and> OrbitPlotter3D lib f0 = Inr f1 \<and>
     set_attractor lib f1 Sun = Inr f2 \<and>
     plot_trajectory lib f2 xs (Body_label Earth) color_earth0 = Inr f3 \<and>
     plot_trajectory lib f3 ys (Body_label Mars) color_marsf = Inr f4 \<and>
     propagate lib orb (map (\<lambda>t. t - epoch orb) tv) = Inr traj \<and>
     plot_trajectory lib f4 traj (Text_label ''MSL trajectory'') color_trans = Inr f5 \<and>
     set_view lib f5 30 260 3 = Inr f6 \<and>
     set_title lib f6 ''MSL Mission: from Earth to Mars'' = Inr f \<and>
     YouTubeVideo lib ''zSgiXGELjbc'' = Inr () \<and>
     s' = s @ [Called Ev_FigureWidget, Called (Ev_OrbitPlotter3D f0),
               Called (Ev_set_attractor f1 Sun),
               Called (Ev_plot_trajectory f2 xs (Body_label Earth) color_earth0),
               Called (Ev_plot_trajectory f3 ys (Body_label Mars) color_marsf),
               Called (Ev_propagate orb (map (\<lambda>t. t - epoch orb) tv)),
               Called (Ev_plot_trajectory f4 traj (Text_label ''MSL trajectory'') color_trans),
               Called (Ev_set_view f5 30 260 3),
               Called (Ev_set_title f6 ''MSL Mission: from Earth to Mars''),
               Displayed (Out_figure f),
               Called (Ev_YouTubeVideo ''zSgiXGELjbc''),
               Displayed (Out_video ''zSgiXGELjbc'')]"
  using assms
  by (auto simp: cells_12_to_15_defs stmt_defs split: sum.splits prod.splits)

lemma cells_12_to_15_no_lambert:
  assumes "cells_12_to_15 lib xs ys tv orb s = (res, s')"
  shows "\<exists>new. s' = s @ new \<and> filter is_lambert_call (trace new) = []"
  using assms
  by (auto simp: cells_12_to_15_defs stmt_defs split: sum.splits prod.splits)

lemma no_lambert_notin:
  assumes "filter is_lambert_call (trace l) = []"
  shows "Called (Ev_lambert k a b d) \<notin> set l"
proof
  assume "Called (Ev_lambert k a b d) \<in> set l"
  then have "Ev_lambert k a b d \<in> set (filter is_lambert_call (trace l))"
    by (simp add: Called_in_set_trace)
  with assms show False by simp
qed

subsection \<open>A run that ends normally\<close>

lemma run_Inr:
  assumes "run lib = (Inr ns, lg)"
  shows "\<exists>f0 f1 f2 f3 f4 traj f5 f6.
     solar_system_ephemeris ns = ''jpl'' \<and>
     date_launch ns = 63457916544 \<and> date_arrival ns = 63479827045 \<and>
     tof ns = date_arrival ns - date_launch ns \<and>
     times_vector ns = time_range (date_launch ns) (date_arrival ns) N \<and>
     solar_system_ephemeris_set lib ''jpl'' = Inr () \<and>
     get_body_barycentric_posvel lib ''jpl'' ''earth'' (times_vector ns)
       = Inr (rr_earth ns, vv_earth ns) \<and>
     get_body_barycentric_posvel lib ''jpl'' ''mars'' (times_vector ns)
       = Inr (rr_mars ns, vv_mars ns) \<and>
     getitem (rr_earth ns) 0 = Inr (r0 ns) \<and> getitem (rr_mars ns) (- 1) = Inr (rf ns) \<and>
     lambert lib (body_k lib Sun) (r0 ns) (rf ns) (tof ns) = Inr [(va ns, vb ns)] \<and>
     ss0_trans ns = from_vectors Sun (r0 ns) (va ns) (date_launch ns) \<and>
     ssf_trans ns = from_vectors Sun (rf ns) (vb ns) (date_arrival ns) \<and>
     FigureWidget lib = Inr f0 \<and> OrbitPlotter3D lib f0 = Inr f1 \<and>
     set_attractor lib f1 Sun = Inr f2 \<and>
     plot_trajectory lib f2 (rr_earth ns) (Body_label Earth) color_earth0 = Inr f3 \<and>
     plot_trajectory lib f3 (rr_mars ns) (Body_label Mars) color_marsf = Inr f4 \<and>
     propagate lib (ss0_trans ns) (map (\<lambda>t. t - epoch (ss0_trans ns)) (times_vector ns))
       = Inr traj \<and>
     plot_trajectory lib f4 traj (Text_label ''MSL trajectory'') color_trans = Inr f5 \<and>
     set_view lib f5 30 260 3 = Inr f6 \<and>
     set_title lib f6 ''MSL Mission: from Earth to Mars'' = Inr (fig ns) \<and>
     YouTubeVideo lib ''zSgiXGELjbc'' = Inr () \<and>
     lg = [Called (Ev_set_ephemeris ''jpl''), Displayed (Out_state ''jpl''),
           Displayed (Out_quantity (to_hours (tof ns)) ''h''),
           Displayed (Out_times (take 5 (times_vector ns))),
           Called (Ev_posvel ''jpl'' ''earth'' (times_vector ns)),
           Displayed (Out_vectors (take 3 (rr_earth ns))),
           Displayed (Out_vectors (take 3 (vv_earth ns))),
           Called (Ev_posvel ''jpl'' ''mars'' (times_vector ns)),
           Displayed (Out_vectors (take 3 (rr_mars ns))),
           Displayed (Out_vectors (take 3 (vv_mars ns))),
           Called (Ev_lambert (body_k lib Sun) (r0 ns) (rf ns) (tof ns)),
           Called Ev_FigureWidget, Called (Ev_OrbitPlotter3D f0),
           Called (Ev_set_attractor f1 Sun),
           Called (Ev_plot_trajectory f2 (rr_earth ns) (Body_label Earth) color_earth0),
           Called (Ev_plot_trajectory f3 (rr_mars ns) (Body_label Mars) color_marsf),
           Called (Ev_propagate (ss0_trans ns)
                     (map (\<lambda>t. t - epoch (ss0_trans ns)) (times_vector ns))),
           Called (Ev_plot_trajectory f4 traj (Text_label ''MSL trajectory'') color_trans),
           Called (Ev_set_view f5 30 260 3),
           Called (Ev_set_title f6 ''MSL Mission: from Earth to Mars''),
           Displayed (Out_figure (fig ns)),
           Called (Ev_YouTubeVideo ''zSgiXGELjbc''),
           Displayed (Out_video ''zSgiXGELjbc'')]"
proof -
  from assms obtain kern dl da tf tv rre vve rrm vvm s1 a b p q o1 o2 s2 f where
    c1: "cells_2_to_10 lib [] = (Inr (kern, dl, da, tf, tv, rre, vve, rrm, vvm), s1)" and
    c2: "cell11 lib rre rrm tf dl da s1 = (Inr (a, b, p, q, o1, o2), s2)" and
    c3: "cells_12_to_15 lib rre rrm tv o1 s2 = (Inr f, lg)" and
    ns: "ns = \<lparr>solar_system_ephemeris = kern,
          date_launch = dl, date_arrival = da, tof = tf, times_vector = tv,
          rr_earth = rre, vv_earth = vve, rr_mars = rrm, vv_mars = vvm,
          r0 = a, rf = b, va = p, vb = q, ss0_trans = o1, fig = f, ssf_trans = o2\<rparr>"
    unfolding run_def notebook_def
    by (auto simp: bnd_def ret_def split: sum.splits prod.splits)
  from cells_2_to_10_Inr [OF c1] cell11_Inr [OF c2] cells_12_to_15_Inr [OF c3] ns
  show ?thesis by auto
qed

subsection \<open>A run that reaches the Lambert solver\<close>

lemma lambert_called:
  assumes mem: "Called (Ev_lambert k a b d) \<in> set (snd (run lib))"
  shows "\<exists>rre vve rrm vvm s1 res2.
     cells_2_to_10 lib [] =
       (Inr (''jpl'', 63457916544, 63479827045, d, time_range 63457916544 63479827045 N,
             rre, vve, rrm, vvm), s1) \<and>
     d = 63479827045 - 63457916544 \<and> k = body_k lib Sun \<and>
     getitem rre 0 = Inr a \<and> getitem rrm (- 1) = Inr b \<and>
     cell11 lib rre rrm d 63457916544 63479827045 s1
       = (res2, s1 @ [Called (Ev_lambert k a b d)]) \<and>
     (\<forall>e. res2 = Inl e \<longrightarrow> run lib = (Inl e, s1 @ [Called (Ev_lambert k a b d)]))"
proof -
  obtain res1 s1 where c1: "cells_2_to_10 lib [] = (res1, s1)"
    by (cases "cells_2_to_10 lib []")
  from cells_2_to_10_no_lambert [OF c1] have quiet1: "filter is_lambert_call (trace s1) = []"
    by auto
  have nl1: "Called (Ev_lambert k a b d) \<notin> set s1"
    by (rule no_lambert_notin [OF quiet1])
  show ?thesis
  proof (cases res1)
    case (Inl e)
    with c1 have "run lib = (Inl e, s1)" by (simp add: run_def notebook_def bnd_def)
    with mem nl1 show ?thesis by simp
  next
    case (Inr x)
    obtain kern dl da tf tv rre vve rrm vvm
      where x: "x = (kern, dl, da, tf, tv, rre, vve, rrm, vvm)" by (cases x) auto
    note c1' = c1 [unfolded Inr x]
    note v = cells_2_to_10_Inr [OF c1']
    obtain res2 s2 where c2: "cell11 lib rre rrm tf dl da s1 = (res2, s2)"
      by (cases "cell11 lib rre rrm tf dl da s1")
    have reach: "\<exists>a' b'. getitem rre 0 = Inr a' \<and> getitem rrm (- 1) = Inr b' \<and>
        s2 = s1 @ [Called (Ev_lambert (body_k lib Sun) a' b' tf)] \<and>
        Called (Ev_lambert k a b d) \<in> set s2 \<and>
        (\<forall>e. res2 = Inl e \<longrightarrow> run lib = (Inl e, s2))"
    proof (cases res2)
      case (Inl e)
      with c1' c2 have r: "run lib = (Inl e, s2)"
        by (simp add: run_def notebook_def bnd_def)
      with mem have m2: "Called (Ev_lambert k a b d) \<in> set s2" by simp
      from cell11_Inl [OF c2 [unfolded Inl]] m2 nl1 obtain a' b'
        where "getitem rre 0 = Inr a'" "getitem rrm (- 1) = Inr b'"
          "s2 = s1 @ [Called (Ev_lambert (body_k lib Sun) a' b' tf)]" by blast
      with m2 r Inl show ?thesis by (intro exI [of _ a'] exI [of _ b']) simp
    next
      case (Inr y)
      obtain a' b' p q o1 o2 where y: "y = (a', b', p, q, o1, o2)" by (cases y) auto
      note c2' = c2 [unfolded Inr y]
      note w = cell11_Inr [OF c2']
      obtain res3 s3 where c3: "cells_12_to_15 lib rre rrm tv o1 s2 = (res3, s3)"
        by (cases "cells_12_to_15 lib rre rrm tv o1 s2")
      from cells_12_to_15_no_lambert [OF c3] obtain new3
        where s3: "s3 = s2 @ new3" and quiet3: "filter is_lambert_call (trace new3) = []"
        by auto
      from c1' c2' c3 have "snd (run lib) = s3"
        by (auto simp: run_def notebook_def bnd_def ret_def split: sum.splits)
      with mem s3 no_lambert_notin [OF quiet3, of k a b d]
      have "Called (Ev_lambert k a b d) \<in> set s2" by auto
      with w Inr show ?thesis by (intro exI [of _ a'] exI [of _ b']) simp
    qed
    then obtain a' b' where g: "getitem rre 0 = Inr a'" "getitem rrm (- 1) = Inr b'"
      and s2: "s2 = s1 @ [Called (Ev_lambert (body_k lib Sun) a' b' tf)]"
      and m2: "Called (Ev_lambert k a b d) \<in> set s2"
      and stop: "\<forall>e. res2 = Inl e \<longrightarrow> run lib = (Inl e, s2)" by blast
    from m2 s2 nl1
    have eq: "k = body_k lib Sun" "a = a'" "b = b'" "d = tf" by auto
    from v eq g s2 c1' c2 stop show ?thesis
      by (intro exI [of _ rre] exI [of _ vve] exI [of _ rrm] exI [of _ vvm] exI [of _ s1]
          exI [of _ res2]) simp
  qed
qed

subsection \<open>No statement catches an exception\<close>

lemma propagates_ret: "propagates lib (ret x)"
  by (simp add: propagates_def ret_def)

lemma propagates_lift: "propagates lib (lift res)"
  by (simp add: propagates_def lift_def)

lemma propagates_display: "propagates lib (display d)"
  by (simp add: propagates_def display_def)

lemma raised_Some: "raised res = Some e \<longleftrightarrow> res = Inl e"
  by (cases res) auto

lemma propagates_call:
  assumes "response lib ev = raised res"
  shows "propagates lib (call ev res)"
  using assms by (simp add: propagates_def call_def raised_Some)

lemma propagates_bnd:
  assumes m: "propagates lib m" and f: "\<And>x. propagates lib (f x)"
  shows "propagates lib (bnd m f)"
  unfolding propagates_def
proof (intro allI impI)
  fix s res s'
  assume run: "bnd m f s = (res, s')"
  obtain res1 s1 where m1: "m s = (res1, s1)" by (cases "m s")
  from m m1 obtain new1 where s1: "s1 = s @ new1"
    and ok1: "\<And>ev e. Called ev \<in> set new1 \<Longrightarrow> response lib ev = Some e \<Longrightarrow>
                res1 = Inl e \<and> last new1 = Called ev"
    unfolding propagates_def by blast
  show "\<exists>new. s' = s @ new \<and>
           (\<forall>ev e. Called ev \<in> set new \<longrightarrow> response lib ev = Some e \<longrightarrow>
              res = Inl e \<and> last new = Called ev)"
  proof (cases res1)
    case (Inl e1)
    with run m1 have "res = Inl e1" "s' = s1" by (auto simp: bnd_def)
    with s1 ok1 Inl show ?thesis by (intro exI [of _ new1]) auto
  next
    case (Inr x)
    with run m1 have fx: "f x s1 = (res, s')" by (auto simp: bnd_def)
    from f [of x] fx obtain new2 where s': "s' = s1 @ new2"
      and ok2: "\<And>ev e. Called ev \<in> set new2 \<Longrightarrow> response lib ev = Some e \<Longrightarrow>
                res = Inl e \<and> last new2 = Called ev"
      unfolding propagates_def by blast
    have quiet1: "\<And>ev e. Called ev \<in> set new1 \<Longrightarrow> response lib ev \<noteq> Some e"
      using ok1 Inr by auto
    have "\<forall>ev e. Called ev \<in> set (new1 @ new2) \<longrightarrow> response lib ev = Some e \<longrightarrow>
              res = Inl e \<and> last (new1 @ new2) = Called ev"
    proof (intro allI impI)
      fix ev e
      assume mem: "Called ev \<in> set (new1 @ new2)" and r: "response lib ev = Some e"
      from mem r quiet1 have in2: "Called ev \<in> set new2" by auto
      then have "new2 \<noteq> []" by auto
      with ok2 [OF in2 r] show "res = Inl e \<and> last (new1 @ new2) = Called ev" by simp
    qed
    with s1 s' show ?thesis by (intro exI [of _ "new1 @ new2"]) simp
  qed
qed

lemma propagates_case_prod:
  assumes "\<And>a b. propagates lib (f a b)"
  shows "propagates lib (case p of (a, b) \<Rightarrow> f a b)"
  using assms by (cases p) simp

lemmas propagates_intros = propagates_bnd propagates_case_prod propagates_ret propagates_lift
  propagates_display propagates_call

lemma propagates_notebook: "propagates lib (notebook lib)"
  unfolding notebook_def cells_2_to_10_def cells_12_to_15_def
    cell2_def cell3_def cell4_def cell5_def cell6_def cell7_def cell8_def cell9_def cell10_def
    cell11_def cell13_def cell15_def
  by (intro propagates_intros) simp_all

subsection \<open>Runs on the small library\<close>

lemma run_toy_ends_normally: "\<not> isl (fst (run toy_library))"
  by code_simp

lemma run_toy: "\<exists>ns lg. run toy_library = (Inr ns, lg)"
proof -
  from run_toy_ends_normally obtain ns where "fst (run toy_library) = Inr ns"
    by (cases "fst (run toy_library)") auto
  then have "run toy_library = (Inr ns, snd (run toy_library))"
    by (cases "run toy_library") simp
  then show ?thesis by blast
qed

lemma toy_lambert_called:
  "Called (Ev_lambert 1 (63457916544, 0, 0) (0, 126959654090, 0) 21910501)
     \<in> set (snd (run toy_library))"
  by code_simp

lemma N_positive: "0 < N" "1 < N" "N - 1 < N" "N = 50"
  by (simp_all add: N_def)

lemma run_Inr_grid:
  assumes "run lib = (Inr ns, lg)"
  shows "length (times_vector ns) = N \<and> length (rr_earth ns) = N \<and> length (vv_earth ns) = N \<and>
     length (rr_mars ns) = N \<and> length (vv_mars ns) = N \<and>
     times_vector ns ! 0 = date_launch ns \<and> times_vector ns ! (N - 1) = date_arrival ns \<and>
     hd (times_vector ns) = date_launch ns \<and> last (times_vector ns) = date_arrival ns \<and>
     r0 ns = rr_earth ns ! 0 \<and> rf ns = rr_mars ns ! (N - 1)"
proof -
  from run_Inr [OF assms] have
    tv: "times_vector ns = time_range (date_launch ns) (date_arrival ns) N" and
    e: "get_body_barycentric_posvel lib ''jpl'' ''earth'' (times_vector ns)
          = Inr (rr_earth ns, vv_earth ns)" and
    m: "get_body_barycentric_posvel lib ''jpl'' ''mars'' (times_vector ns)
          = Inr (rr_mars ns, vv_mars ns)" and
    g0: "getitem (rr_earth ns) 0 = Inr (r0 ns)" and
    gf: "getitem (rr_mars ns) (- 1) = Inr (rf ns)"
    by blast+
  from tv have len: "length (times_vector ns) = N" by (simp add: length_time_range)
  from tv have first: "times_vector ns ! 0 = date_launch ns"
    by (simp add: nth_time_range_0 N_positive)
  from tv have h: "hd (times_vector ns) = date_launch ns"
    by (simp add: hd_time_range N_positive)
  from tv have l: "last (times_vector ns) = date_arrival ns"
    by (simp add: last_time_range N_positive)
  from len N_positive have "times_vector ns \<noteq> []" by auto
  with l len have final: "times_vector ns ! (N - 1) = date_arrival ns"
    by (simp add: last_conv_nth)
  from posvel_length [OF e] posvel_length [OF m] len
  have lens: "length (rr_earth ns) = N" "length (vv_earth ns) = N"
    "length (rr_mars ns) = N" "length (vv_mars ns) = N" by simp_all
  from getitem_first [OF g0] have r0: "r0 ns = rr_earth ns ! 0" by simp
  from getitem_last [OF gf] lens have rf: "rf ns = rr_mars ns ! (N - 1)"
    by (simp add: last_conv_nth)
  from len lens first final h l r0 rf show ?thesis by simp
qed

lemma run_Inr_trace:
  assumes "run lib = (Inr ns, lg)"
  shows "\<exists>f0 f1 f2 f3 f4 traj f5 f6.
     propagate lib (ss0_trans ns) (map (\<lambda>t. t - date_launch ns) (times_vector ns)) = Inr traj \<and>
     trace lg =
       [Ev_set_ephemeris ''jpl'',
        Ev_posvel ''jpl'' ''earth'' (times_vector ns),
        Ev_posvel ''jpl'' ''mars'' (times_vector ns),
        Ev_lambert (body_k lib Sun) (r0 ns) (rf ns) (tof ns),
        Ev_FigureWidget, Ev_OrbitPlotter3D f0, Ev_set_attractor f1 Sun,
        Ev_plot_trajectory f2 (rr_earth ns) (Body_label Earth) color_earth0,
        Ev_plot_trajectory f3 (rr_mars ns) (Body_label Mars) color_marsf,
        Ev_propagate (ss0_trans ns) (map (\<lambda>t. t - date_launch ns) (times_vector ns)),
        Ev_plot_trajectory f4 traj (Text_label ''MSL trajectory'') color_trans,
        Ev_set_view f5 30 260 3,
        Ev_set_title f6 ''MSL Mission: from Earth to Mars'',
        Ev_YouTubeVideo ''zSgiXGELjbc'']"
proof -
  from run_Inr [OF assms] obtain f0 f1 f2 f3 f4 traj f5 f6 where
    o0: "ss0_trans ns = from_vectors Sun (r0 ns) (va ns) (date_launch ns)" and
    p: "propagate lib (ss0_trans ns) (map (\<lambda>t. t - epoch (ss0_trans ns)) (times_vector ns))
       = Inr traj" and
    lg: "lg = [Called (Ev_set_ephemeris ''jpl''), Displayed (Out_state ''jpl''),
           Displayed (Out_quantity (to_hours (tof ns)) ''h''),
           Displayed (Out_times (take 5 (times_vector ns))),
           Called (Ev_posvel ''jpl'' ''earth'' (times_vector ns)),
           Displayed (Out_vectors (take 3 (rr_earth ns))),
           Displayed (Out_vectors (take 3 (vv_earth ns))),
           Called (Ev_posvel ''jpl'' ''mars'' (times_vector ns)),
           Displayed (Out_vectors (take 3 (rr_mars ns))),
           Displayed (Out_vectors (take 3 (vv_mars ns))),
           Called (Ev_lambert (body_k lib Sun) (r0 ns) (rf ns) (tof ns)),
           Called Ev_FigureWidget, Called (Ev_OrbitPlotter3D f0),
           Called (Ev_set_attractor f1 Sun),
           Called (Ev_plot_trajectory f2 (rr_earth ns) (Body_label Earth) color_earth0),
           Called (Ev_plot_trajectory f3 (rr_mars ns) (Body_label Mars) color_marsf),
           Called (Ev_propagate (ss0_trans ns)
                     (map (\<lambda>t. t - epoch (ss0_trans ns)) (times_vector ns))),
           Called (Ev_plot_trajectory f4 traj (Text_label ''MSL trajectory'') color_trans),
           Called (Ev_set_view f5 30 260 3),
           Called (Ev_set_title f6 ''MSL Mission: from Earth to Mars''),
           Displayed (Out_figure (fig ns)),
           Called (Ev_YouTubeVideo ''zSgiXGELjbc''),
           Displayed (Out_video ''zSgiXGELjbc'')]"
    by blast
  from o0 have ep: "epoch (ss0_trans ns) = date_launch ns" by (simp add: from_vectors_def)
  from p lg show ?thesis unfolding ep by simp
qed

lemma run_Inr_counts:
  assumes "run lib = (Inr ns, lg)"
  shows "count_calls is_lambert_call lg = 1 \<and> count_calls is_ephemeris_lookup lg = 2 \<and>
     count_calls is_plotting_call lg = 3"
proof -
  from run_Inr_trace [OF assms] obtain evs where "trace lg = evs"
    and "length (filter is_lambert_call evs) = 1 \<and> length (filter is_ephemeris_lookup evs) = 2
      \<and> length (filter is_plotting_call evs) = 3"
    by fastforce
  then show ?thesis by (simp add: count_calls_def)
qed

lemma traverse_propagate_nth:
  assumes "propagate lib orb ds = Inr traj"
  shows "length traj = length ds \<and> (\<forall>i<length ds. kepler lib orb (ds ! i) = Inr (traj ! i))"
  using assms traverse_length [of "kepler lib orb" ds traj]
    traverse_nth [of "kepler lib orb" ds traj]
  by (simp add: propagate_def)

lemma no_solution_lambert_called:
  "Called (Ev_lambert 1 (63457916544, 0, 0) (0, 126959654090, 0) 21910501)
     \<in> set (snd (run toy_library_no_solution))"
  by code_simp

lemma two_solutions_lambert_called:
  "Called (Ev_lambert 1 (63457916544, 0, 0) (0, 126959654090, 0) 21910501)
     \<in> set (snd (run toy_library_two_solutions))"
  by code_simp

lemma no_mars_lookup_called:
  "Called (Ev_posvel ''jpl'' ''mars'' (time_range 63457916544 63479827045 N))
     \<in> set (snd (run toy_library_no_mars))"
  by code_simp

lemma no_mars_lookup_raises:
  "response toy_library_no_mars
     (Ev_posvel ''jpl'' ''mars'' (time_range 63457916544 63479827045 N))
   = Some (LibraryError ''no ephemeris data'')"
  by code_simp

section \<open>The claims\<close>

text \<open>
  C1.  In a run that ends normally the Lambert solver is called exactly once, with the
  Sun's gravitational parameter, \<open>r0\<close>, \<open>rf\<close> and \<open>tof\<close>: \<open>r0\<close> is the first
  entry of Earth's positions, which is Earth's ephemeris position at the first sampled
  epoch, the launch date; \<open>rf\<close> is the last entry of Mars' positions, its ephemeris
  position at the last sampled epoch, the arrival date.  The solver returned the one pair
  \<open>(va, vb)\<close>, and the two transfer orbits are built around the Sun from \<open>r0\<close>,
  \<open>va\<close> and the launch date, and from \<open>rf\<close>, \<open>vb\<close> and the arrival date.
\<close>

theorem C1_transfer_orbit:
  assumes "run lib = (Inr ns, lg)"
  shows "filter is_lambert_call (trace lg)
       = [Ev_lambert (body_k lib Sun) (r0 ns) (rf ns) (tof ns)] \<and>
     hd (times_vector ns) = date_launch ns \<and> r0 ns = hd (rr_earth ns) \<and>
     ephemeris lib ''jpl'' ''earth'' (date_launch ns) = Inr (r0 ns, hd (vv_earth ns)) \<and>
     last (times_vector ns) = date_arrival ns \<and> rf ns = last (rr_mars ns) \<and>
     ephemeris lib ''jpl'' ''mars'' (date_arrival ns) = Inr (rf ns, last (vv_mars ns)) \<and>
     tof ns = date_arrival ns - date_launch ns \<and>
     lambert lib (body_k lib Sun) (r0 ns) (rf ns) (tof ns) = Inr [(va ns, vb ns)] \<and>
     ss0_trans ns
       = \<lparr>attractor = Sun, orbit_r = r0 ns, orbit_v = va ns, epoch = date_launch ns\<rparr> \<and>
     ssf_trans ns
       = \<lparr>attractor = Sun, orbit_r = rf ns, orbit_v = vb ns, epoch = date_arrival ns\<rparr>"
proof -
  note g = run_Inr_grid [OF assms]
  from run_Inr [OF assms] obtain f0 f1 f2 f3 f4 traj f5 f6 where
    e: "get_body_barycentric_posvel lib ''jpl'' ''earth'' (times_vector ns)
          = Inr (rr_earth ns, vv_earth ns)" and
    m: "get_body_barycentric_posvel lib ''jpl'' ''mars'' (times_vector ns)
          = Inr (rr_mars ns, vv_mars ns)" and
    t: "tof ns = date_arrival ns - date_launch ns" and
    l: "lambert lib (body_k lib Sun) (r0 ns) (rf ns) (tof ns) = Inr [(va ns, vb ns)]" and
    o0: "ss0_trans ns = from_vectors Sun (r0 ns) (va ns) (date_launch ns)" and
    o1: "ssf_trans ns = from_vectors Sun (rf ns) (vb ns) (date_arrival ns)" and
    lg: "lg = [Called (Ev_set_ephemeris ''jpl''), Displayed (Out_state ''jpl''),
           Displayed (Out_quantity (to_hours (tof ns)) ''h''),
           Displayed (Out_times (take 5 (times_vector ns))),
           Called (Ev_posvel ''jpl'' ''earth'' (times_vector ns)),
           Displayed (Out_vectors (take 3 (rr_earth ns))),
           Displayed (Out_vectors (take 3 (vv_earth ns))),
           Called (Ev_posvel ''jpl'' ''mars'' (times_vector ns)),
           Displayed (Out_vectors (take 3 (rr_mars ns))),
           Displayed (Out_vectors (take 3 (vv_mars ns))),
           Called (Ev_lambert (body_k lib Sun) (r0 ns) (rf ns) (tof ns)),
           Called Ev_FigureWidget, Called (Ev_OrbitPlotter3D f0),
           Called (Ev_set_attractor f1 Sun),
           Called (Ev_plot_trajectory f2 (rr_earth ns) (Body_label Earth) color_earth0),
           Called (Ev_plot_trajectory f3 (rr_mars ns) (Body_label Mars) color_marsf),
           Called (Ev_propagate (ss0_trans ns)
                     (map (\<lambda>t. t - epoch (ss0_trans ns)) (times_vector ns))),
           Called (Ev_plot_trajectory f4 traj (Text_label ''MSL trajectory'') color_trans),
           Called (Ev_set_view f5 30 260 3),
           Called (Ev_set_title f6 ''MSL Mission: from Earth to Mars''),
           Displayed (Out_figure (fig ns)),
           Called (Ev_YouTubeVideo ''zSgiXGELjbc''),
           Displayed (Out_video ''zSgiXGELjbc'')]"
    by blast
  from lg have one: "filter is_lambert_call (trace lg)
       = [Ev_lambert (body_k lib Sun) (r0 ns) (rf ns) (tof ns)]" by simp
  from g N_positive have ne: "rr_earth ns \<noteq> []" "vv_earth ns \<noteq> []" "rr_mars ns \<noteq> []"
    "vv_mars ns \<noteq> []" by auto
  from posvel_nth [OF e, of 0] g N_positive
  have pe: "ephemeris lib ''jpl'' ''earth'' (date_launch ns) = Inr (r0 ns, hd (vv_earth ns))"
    using ne by (simp add: hd_conv_nth)
  from posvel_nth [OF m, of "N - 1"] g N_positive
  have pm: "ephemeris lib ''jpl'' ''mars'' (date_arrival ns) = Inr (rf ns, last (vv_mars ns))"
    using ne by (simp add: last_conv_nth)
  from g ne have hl: "r0 ns = hd (rr_earth ns)" "rf ns = last (rr_mars ns)"
    by (simp_all add: hd_conv_nth last_conv_nth)
  from one g hl pe pm t l o0 o1 show ?thesis by (simp add: from_vectors_def)
qed

theorem C1_transfer_orbit_witness:
  "\<exists>ns lg. run toy_library = (Inr ns, lg) \<and>
     filter is_lambert_call (trace lg)
       = [Ev_lambert (body_k toy_library Sun) (r0 ns) (rf ns) (tof ns)] \<and>
     hd (times_vector ns) = date_launch ns \<and> r0 ns = hd (rr_earth ns) \<and>
     ephemeris toy_library ''jpl'' ''earth'' (date_launch ns) = Inr (r0 ns, hd (vv_earth ns)) \<and>
     last (times_vector ns) = date_arrival ns \<and> rf ns = last (rr_mars ns) \<and>
     ephemeris toy_library ''jpl'' ''mars'' (date_arrival ns) = Inr (rf ns, last (vv_mars ns)) \<and>
     tof ns = date_arrival ns - date_launch ns \<and>
     lambert toy_library (body_k toy_library Sun) (r0 ns) (rf ns) (tof ns)
       = Inr [(va ns, vb ns)] \<and>
     ss0_trans ns
       = \<lparr>attractor = Sun, orbit_r = r0 ns, orbit_v = va ns, epoch = date_launch ns\<rparr> \<and>
     ssf_trans ns
       = \<lparr>attractor = Sun, orbit_r = rf ns, orbit_v = vb ns, epoch = date_arrival ns\<rparr>"
proof -
  from run_toy obtain ns lg where r: "run toy_library = (Inr ns, lg)" by blast
  from r C1_transfer_orbit [OF r] show ?thesis by blast
qed

text \<open>
  C2.  The solver may return any number of pairs, but the target list
  \<^verbatim>\<open>(va, vb), = ...\<close> takes exactly one.  In every run that calls the solver and gets
  no pair, or two or more, the run ends there with the \<^verbatim>\<open>ValueError\<close> of the
  unpacking: the call of the solver is the last entry of the log, and no namespace, so
  no transfer orbit, results.
\<close>

theorem C2_unpacking_needs_one_pair:
  assumes "Called (Ev_lambert k a b d) \<in> set (snd (run lib))"
    and "lambert lib k a b d = Inr sols" and "length sols \<noteq> 1"
  shows "fst (run lib) =
       Inl (ValueError (if sols = [] then ''not enough values to unpack (expected 1, got 0)''
                        else ''too many values to unpack (expected 1)'')) \<and>
     last (snd (run lib)) = Called (Ev_lambert k a b d)"
proof -
  from lambert_called [OF assms(1)] obtain rre vve rrm vvm s1 res2 where
    c1: "cells_2_to_10 lib [] =
       (Inr (''jpl'', 63457916544, 63479827045, d, time_range 63457916544 63479827045 N,
             rre, vve, rrm, vvm), s1)" and
    k: "k = body_k lib Sun" and
    g: "getitem rre 0 = Inr a" "getitem rrm (- 1) = Inr b" and
    c2: "cell11 lib rre rrm d 63457916544 63479827045 s1
       = (res2, s1 @ [Called (Ev_lambert k a b d)])" and
    stop: "\<forall>e. res2 = Inl e \<longrightarrow> run lib = (Inl e, s1 @ [Called (Ev_lambert k a b d)])"
    by blast
  define e where "e = ValueError (if sols = []
      then ''not enough values to unpack (expected 1, got 0)''
      else ''too many values to unpack (expected 1)'')"
  from assms(3) have "unpack_one sols = Inl e"
    unfolding unpack_one_Inl e_def by (cases sols) (auto simp: Suc_le_eq)
  with cell11_unpack [OF g assms(2) [unfolded k]] c2
  have "res2 = Inl e" by (simp add: k)
  with stop have "run lib = (Inl e, s1 @ [Called (Ev_lambert k a b d)])" by simp
  then show ?thesis by (simp add: e_def)
qed

theorem C2_unpacking_needs_one_pair_witness:
  "(Called (Ev_lambert 1 (63457916544, 0, 0) (0, 126959654090, 0) 21910501)
      \<in> set (snd (run toy_library_no_solution)) \<and>
    lambert toy_library_no_solution 1 (63457916544, 0, 0) (0, 126959654090, 0) 21910501
      = Inr [] \<and>
    length ([] :: (vec \<times> vec) list) \<noteq> 1 \<and>
    fst (run toy_library_no_solution) =
      Inl (ValueError ''not enough values to unpack (expected 1, got 0)'') \<and>
    last (snd (run toy_library_no_solution))
      = Called (Ev_lambert 1 (63457916544, 0, 0) (0, 126959654090, 0) 21910501)) \<and>
   (Called (Ev_lambert 1 (63457916544, 0, 0) (0, 126959654090, 0) 21910501)
      \<in> set (snd (run toy_library_two_solutions)) \<and>
    lambert toy_library_two_solutions 1 (63457916544, 0, 0) (0, 126959654090, 0) 21910501
      = Inr [((0, 0, 0), (0, 0, 0)), ((1, 0, 0), (1, 0, 0))] \<and>
    length [((0, 0, 0), (0, 0, 0)), ((1, 0, 0), (1, 0, 0)) :: vec \<times> vec] \<noteq> 1 \<and>
    fst (run toy_library_two_solutions) =
      Inl (ValueError ''too many values to unpack (expected 1)'') \<and>
    last (snd (run toy_library_two_solutions))
      = Called (Ev_lambert 1 (63457916544, 0, 0) (0, 126959654090, 0) 21910501))"
proof -
  have none: "lambert toy_library_no_solution 1 (63457916544, 0, 0) (0, 126959654090, 0)
      21910501 = Inr []"
    by (simp add: toy_library_no_solution_def)
  have two: "lambert toy_library_two_solutions 1 (63457916544, 0, 0) (0, 126959654090, 0)
      21910501 = Inr [((0, 0, 0), (0, 0, 0)), ((1, 0, 0), (1, 0, 0))]"
    by (simp add: toy_library_two_solutions_def)
  from C2_unpacking_needs_one_pair [OF no_solution_lambert_called none]
    C2_unpacking_needs_one_pair [OF two_solutions_lambert_called two]
    no_solution_lambert_called two_solutions_lambert_called none two
  show ?thesis by simp
qed

text \<open>
  C3.  As stated the claim fails: the notebook looks an ephemeris up twice and plots
  three times.  In a run that ends normally the log holds exactly one call of the
  Lambert solver (\<^verbatim>\<open>iod.lambert\<close>), exactly two ephemeris lookups
  (\<^verbatim>\<open>get_body_barycentric_posvel\<close>, for Earth and for Mars) and exactly three
  plotting calls (\<^verbatim>\<open>frame.plot_trajectory\<close>, for Earth, Mars and the transfer).
\<close>

theorem C3_call_counts:
  assumes "run lib = (Inr ns, lg)"
  shows "count_calls is_lambert_call lg = 1 \<and> count_calls is_ephemeris_lookup lg = 2 \<and>
     count_calls is_plotting_call lg = 3"
  using run_Inr_counts [OF assms] .

theorem C3_call_counts_witness:
  "\<exists>ns lg. run toy_library = (Inr ns, lg) \<and>
     count_calls is_lambert_call lg = 1 \<and> count_calls is_ephemeris_lookup lg = 2 \<and>
     count_calls is_plotting_call lg = 3"
proof -
  from run_toy obtain ns lg where r: "run toy_library = (Inr ns, lg)" by blast
  from r C3_call_counts [OF r] show ?thesis by blast
qed

theorem C3_one_call_each_counterexample:
  "\<not> (count_calls is_lambert_call (snd (run toy_library)) = 1 \<and>
      count_calls is_ephemeris_lookup (snd (run toy_library)) = 1 \<and>
      count_calls is_plotting_call (snd (run toy_library)) = 1)"
proof -
  from run_toy obtain ns lg where r: "run toy_library = (Inr ns, lg)" by blast
  from run_Inr_counts [OF r] r show ?thesis by simp
qed

text \<open>
  C4.  A run that ends normally makes its library calls in this order: the kernel is
  selected, the ephemerides of Earth and of Mars are looked up, the Lambert solver is
  called once, and then the figure is built and the three trajectories are plotted.  The
  solver's position arguments are entries of the looked-up positions, the first two
  plotted trajectories are the looked-up positions, and the third is the propagation of
  the orbit built from the solver's result: every call's arguments exist before it.
\<close>

theorem C4_stage_order:
  assumes "run lib = (Inr ns, lg)"
  shows "\<exists>f0 f1 f2 f3 f4 traj f5 f6.
     trace lg =
       [Ev_set_ephemeris ''jpl'',
        Ev_posvel ''jpl'' ''earth'' (times_vector ns),
        Ev_posvel ''jpl'' ''mars'' (times_vector ns),
        Ev_lambert (body_k lib Sun) (r0 ns) (rf ns) (tof ns),
        Ev_FigureWidget, Ev_OrbitPlotter3D f0, Ev_set_attractor f1 Sun,
        Ev_plot_trajectory f2 (rr_earth ns) (Body_label Earth) color_earth0,
        Ev_plot_trajectory f3 (rr_mars ns) (Body_label Mars) color_marsf,
        Ev_propagate (ss0_trans ns) (map (\<lambda>t. t - date_launch ns) (times_vector ns)),
        Ev_plot_trajectory f4 traj (Text_label ''MSL trajectory'') color_trans,
        Ev_set_view f5 30 260 3,
        Ev_set_title f6 ''MSL Mission: from Earth to Mars'',
        Ev_YouTubeVideo ''zSgiXGELjbc''] \<and>
     get_body_barycentric_posvel lib ''jpl'' ''earth'' (times_vector ns)
       = Inr (rr_earth ns, vv_earth ns) \<and>
     get_body_barycentric_posvel lib ''jpl'' ''mars'' (times_vector ns)
       = Inr (rr_mars ns, vv_mars ns) \<and>
     r0 ns = hd (rr_earth ns) \<and> rf ns = last (rr_mars ns) \<and>
     lambert lib (body_k lib Sun) (r0 ns) (rf ns) (tof ns) = Inr [(va ns, vb ns)] \<and>
     ss0_trans ns = from_vectors Sun (r0 ns) (va ns) (date_launch ns) \<and>
     propagate lib (ss0_trans ns) (map (\<lambda>t. t - date_launch ns) (times_vector ns))
       = Inr traj"
proof -
  from run_Inr [OF assms] have
    e: "get_body_barycentric_posvel lib ''jpl'' ''earth'' (times_vector ns)
          = Inr (rr_earth ns, vv_earth ns)" and
    m: "get_body_barycentric_posvel lib ''jpl'' ''mars'' (times_vector ns)
          = Inr (rr_mars ns, vv_mars ns)" and
    g0: "getitem (rr_earth ns) 0 = Inr (r0 ns)" and
    gf: "getitem (rr_mars ns) (- 1) = Inr (rf ns)" and
    l: "lambert lib (body_k lib Sun) (r0 ns) (rf ns) (tof ns) = Inr [(va ns, vb ns)]" and
    o0: "ss0_trans ns = from_vectors Sun (r0 ns) (va ns) (date_launch ns)"
    by blast+
  from getitem_first [OF g0] have h: "r0 ns = hd (rr_earth ns)" by (simp add: hd_conv_nth)
  from getitem_last [OF gf] have t: "rf ns = last (rr_mars ns)" by simp
  from run_Inr_trace [OF assms] e m h t l o0 show ?thesis by blast
qed

theorem C4_stage_order_witness:
  "\<exists>ns lg. run toy_library = (Inr ns, lg) \<and>
   (\<exists>f0 f1 f2 f3 f4 traj f5 f6.
     trace lg =
       [Ev_set_ephemeris ''jpl'',
        Ev_posvel ''jpl'' ''earth'' (times_vector ns),
        Ev_posvel ''jpl'' ''mars'' (times_vector ns),
        Ev_lambert (body_k toy_library Sun) (r0 ns) (rf ns) (tof ns),
        Ev_FigureWidget, Ev_OrbitPlotter3D f0, Ev_set_attractor f1 Sun,
        Ev_plot_trajectory f2 (rr_earth ns) (Body_label Earth) color_earth0,
        Ev_plot_trajectory f3 (rr_mars ns) (Body_label Mars) color_marsf,
        Ev_propagate (ss0_trans ns) (map (\<lambda>t. t - date_launch ns) (times_vector ns)),
        Ev_plot_trajectory f4 traj (Text_label ''MSL trajectory'') color_trans,
        Ev_set_view f5 30 260 3,
        Ev_set_title f6 ''MSL Mission: from Earth to Mars'',
        Ev_YouTubeVideo ''zSgiXGELjbc''] \<and>
     get_body_barycentric_posvel toy_library ''jpl'' ''earth'' (times_vector ns)
       = Inr (rr_earth ns, vv_earth ns) \<and>
     get_body_barycentric_posvel toy_library ''jpl'' ''mars'' (times_vector ns)
       = Inr (rr_mars ns, vv_mars ns) \<and>
     r0 ns = hd (rr_earth ns) \<and> rf ns = last (rr_mars ns) \<and>
     lambert toy_library (body_k toy_library Sun) (r0 ns) (rf ns) (tof ns)
       = Inr [(va ns, vb ns)] \<and>
     ss0_trans ns = from_vectors Sun (r0 ns) (va ns) (date_launch ns) \<and>
     propagate toy_library (ss0_trans ns) (map (\<lambda>t. t - date_launch ns) (times_vector ns))
       = Inr traj)"
proof -
  from run_toy obtain ns lg where r: "run toy_library = (Inr ns, lg)" by blast
  from r C4_stage_order [OF r] show ?thesis by blast
qed

text \<open>
  C5.  In every run that calls the Lambert solver, the time of flight passed to it is
  \<^verbatim>\<open>date_arrival - date_launch\<close> for the two dates the notebook writes,
  2011-11-26 15:02 and 2012-08-06 05:17 UTC.  On the UTC wall clock the two dates are
  253 days 14 hours 15 minutes apart; the time of flight is one second more (the leap
  second at the end of 2012-06-30), and the notebook displays it in hours, which to eight
  decimals is the recorded 6086.25027778.
\<close>

theorem C5_time_of_flight:
  assumes "Called (Ev_lambert k a b d) \<in> set (snd (run lib))"
  shows "\<exists>t0 t1 c0 c1.
     Time ''2011-11-26 15:02'' ''utc'' = Inr t0 \<and>
     Time ''2012-08-06 05:17'' ''utc'' = Inr t1 \<and>
     d = t1 - t0 \<and>
     parse_civil ''2011-11-26 15:02'' = Some c0 \<and>
     parse_civil ''2012-08-06 05:17'' = Some c1 \<and>
     wall_clock c1 - wall_clock c0 = 253 * 86400 + 14 * 3600 + 15 * 60 \<and>
     d = of_int (wall_clock c1 - wall_clock c0) + 1 \<and>
     Displayed (Out_quantity (to_hours d) ''h'') \<in> set (snd (run lib)) \<and>
     round_to 8 (to_hours d) = 608625027778 / 100000000"
proof -
  from lambert_called [OF assms] obtain rre vve rrm vvm s1 res2 where
    c1: "cells_2_to_10 lib [] =
       (Inr (''jpl'', 63457916544, 63479827045, d, time_range 63457916544 63479827045 N,
             rre, vve, rrm, vvm), s1)"
    and d: "d = 63479827045 - 63457916544"
    and c2: "cell11 lib rre rrm d 63457916544 63479827045 s1
       = (res2, s1 @ [Called (Ev_lambert k a b d)])"
    by blast
  from cells_2_to_10_Inr [OF c1]
  have shown1: "Displayed (Out_quantity (to_hours d) ''h'') \<in> set s1" by simp
  have "\<exists>new. snd (run lib) = s1 @ new"
    using c1 c2
    by (cases res2)
       (auto simp: run_def notebook_def bnd_def ret_def split: sum.splits prod.splits
             dest!: cells_12_to_15_no_lambert)
  with shown1 have shown: "Displayed (Out_quantity (to_hours d) ''h'') \<in> set (snd (run lib))"
    by auto
  have span: "d = of_int (wall_clock \<lparr>year = 2012, month = 8, day = 6, hour = 5, minute = 17\<rparr>
     - wall_clock \<lparr>year = 2011, month = 11, day = 26, hour = 15, minute = 2\<rparr>) + 1"
    unfolding wall_clock_span d by simp
  have shown8: "round_to 8 (to_hours d) = 608625027778 / 100000000"
    using recorded_Out3 d by simp
  from Time_launch Time_arrival d parse_launch parse_arrival wall_clock_span span shown shown8
  show ?thesis by blast
qed

theorem C5_time_of_flight_witness:
  "Called (Ev_lambert 1 (63457916544, 0, 0) (0, 126959654090, 0) 21910501)
     \<in> set (snd (run toy_library)) \<and>
   (\<exists>t0 t1 c0 c1.
     Time ''2011-11-26 15:02'' ''utc'' = Inr t0 \<and>
     Time ''2012-08-06 05:17'' ''utc'' = Inr t1 \<and>
     (21910501 :: rat) = t1 - t0 \<and>
     parse_civil ''2011-11-26 15:02'' = Some c0 \<and>
     parse_civil ''2012-08-06 05:17'' = Some c1 \<and>
     wall_clock c1 - wall_clock c0 = 253 * 86400 + 14 * 3600 + 15 * 60 \<and>
     (21910501 :: rat) = of_int (wall_clock c1 - wall_clock c0) + 1 \<and>
     Displayed (Out_quantity (to_hours 21910501) ''h'') \<in> set (snd (run toy_library)) \<and>
     round_to 8 (to_hours 21910501) = 608625027778 / 100000000)"
  using toy_lambert_called C5_time_of_flight [OF toy_lambert_called] by simp

text \<open>
  C6.  No cell catches an exception.  Whenever a library call the notebook makes raises
  (the selection of the kernel, an ephemeris lookup, the Lambert solver, the propagation,
  a plotting call, the video), the run ends with that same exception, and that call is
  the last entry of the log: no later call is made and no later output is displayed.
\<close>

theorem C6_exceptions_propagate:
  assumes "Called ev \<in> set (snd (run lib))" and "response lib ev = Some e"
  shows "fst (run lib) = Inl e \<and> last (snd (run lib)) = Called ev"
proof -
  obtain res lg where r: "notebook lib [] = (res, lg)" by (cases "notebook lib []")
  with propagates_notebook [of lib] assms show ?thesis
    unfolding propagates_def run_def by fastforce
qed

theorem C6_exceptions_propagate_witness:
  "Called (Ev_posvel ''jpl'' ''mars'' (time_range 63457916544 63479827045 N))
     \<in> set (snd (run toy_library_no_mars)) \<and>
   response toy_library_no_mars
     (Ev_posvel ''jpl'' ''mars'' (time_range 63457916544 63479827045 N))
     = Some (LibraryError ''no ephemeris data'') \<and>
   fst (run toy_library_no_mars) = Inl (LibraryError ''no ephemeris data'') \<and>
   last (snd (run toy_library_no_mars))
     = Called (Ev_posvel ''jpl'' ''mars'' (time_range 63457916544 63479827045 N))"
  using C6_exceptions_propagate [OF no_mars_lookup_called no_mars_lookup_raises]
    no_mars_lookup_called no_mars_lookup_raises
  by simp

text \<open>
  C7.  An ephemeris lookup takes a body identifier and an array of times and returns the
  positions and the velocities, one of each per time.  In a run that ends normally the
  first three library calls are the selection of the kernel \<^verbatim>\<open>jpl\<close>, the lookup
  for \<^verbatim>\<open>earth\<close> and the lookup for \<^verbatim>\<open>mars\<close>, both over \<open>times_vector\<close>;
  there is no other lookup.
\<close>

theorem C7_ephemeris_lookups:
  assumes "run lib = (Inr ns, lg)"
  shows "take 3 (trace lg) =
       [Ev_set_ephemeris ''jpl'',
        Ev_posvel ''jpl'' ''earth'' (times_vector ns),
        Ev_posvel ''jpl'' ''mars'' (times_vector ns)] \<and>
     filter is_ephemeris_lookup (trace lg) =
       [Ev_posvel ''jpl'' ''earth'' (times_vector ns),
        Ev_posvel ''jpl'' ''mars'' (times_vector ns)] \<and>
     solar_system_ephemeris ns = ''jpl'' \<and>
     get_body_barycentric_posvel lib ''jpl'' ''earth'' (times_vector ns)
       = Inr (rr_earth ns, vv_earth ns) \<and>
     get_body_barycentric_posvel lib ''jpl'' ''mars'' (times_vector ns)
       = Inr (rr_mars ns, vv_mars ns) \<and>
     length (rr_earth ns) = length (times_vector ns) \<and>
     length (vv_earth ns) = length (times_vector ns) \<and>
     length (rr_mars ns) = length (times_vector ns) \<and>
     length (vv_mars ns) = length (times_vector ns) \<and>
     (\<forall>i<length (times_vector ns).
        ephemeris lib ''jpl'' ''earth'' (times_vector ns ! i)
          = Inr (rr_earth ns ! i, vv_earth ns ! i) \<and>
        ephemeris lib ''jpl'' ''mars'' (times_vector ns ! i)
          = Inr (rr_mars ns ! i, vv_mars ns ! i))"
proof -
  from run_Inr [OF assms] have
    k: "solar_system_ephemeris ns = ''jpl''" and
    e: "get_body_barycentric_posvel lib ''jpl'' ''earth'' (times_vector ns)
          = Inr (rr_earth ns, vv_earth ns)" and
    m: "get_body_barycentric_posvel lib ''jpl'' ''mars'' (times_vector ns)
          = Inr (rr_mars ns, vv_mars ns)"
    by blast+
  from run_Inr_trace [OF assms] obtain evs where evs: "trace lg = evs" and
    "take 3 evs = [Ev_set_ephemeris ''jpl'',
        Ev_posvel ''jpl'' ''earth'' (times_vector ns),
        Ev_posvel ''jpl'' ''mars'' (times_vector ns)] \<and>
     filter is_ephemeris_lookup evs =
       [Ev_posvel ''jpl'' ''earth'' (times_vector ns),
        Ev_posvel ''jpl'' ''mars'' (times_vector ns)]"
    by fastforce
  with k e m posvel_length [OF e] posvel_length [OF m] posvel_nth [OF e] posvel_nth [OF m]
  show ?thesis by simp
qed

theorem C7_ephemeris_lookups_witness:
  "\<exists>ns lg. run toy_library = (Inr ns, lg) \<and>
     take 3 (trace lg) =
       [Ev_set_ephemeris ''jpl'',
        Ev_posvel ''jpl'' ''earth'' (times_vector ns),
        Ev_posvel ''jpl'' ''mars'' (times_vector ns)] \<and>
     filter is_ephemeris_lookup (trace lg) =
       [Ev_posvel ''jpl'' ''earth'' (times_vector ns),
        Ev_posvel ''jpl'' ''mars'' (times_vector ns)] \<and>
     solar_system_ephemeris ns = ''jpl'' \<and>
     get_body_barycentric_posvel toy_library ''jpl'' ''earth'' (times_vector ns)
       = Inr (rr_earth ns, vv_earth ns) \<and>
     get_body_barycentric_posvel toy_library ''jpl'' ''mars'' (times_vector ns)
       = Inr (rr_mars ns, vv_mars ns) \<and>
     length (rr_earth ns) = length (times_vector ns) \<and>
     length (vv_earth ns) = length (times_vector ns) \<and>
     length (rr_mars ns) = length (times_vector ns) \<and>
     length (vv_mars ns) = length (times_vector ns) \<and>
     (\<forall>i<length (times_vector ns).
        ephemeris toy_library ''jpl'' ''earth'' (times_vector ns ! i)
          = Inr (rr_earth ns ! i, vv_earth ns ! i) \<and>
        ephemeris toy_library ''jpl'' ''mars'' (times_vector ns ! i)
          = Inr (rr_mars ns ! i, vv_mars ns ! i))"
proof -
  from run_toy obtain ns lg where r: "run toy_library = (Inr ns, lg)" by blast
  from r C7_ephemeris_lookups [OF r] show ?thesis by blast
qed

text \<open>
  C9.  In a run that ends normally \<open>times_vector\<close> has \<open>N = 50\<close> epochs, the first
  the launch date and the last the arrival date; the positions of Earth and of Mars have
  50 entries each, the ephemeris position at each epoch; and the three plotted
  trajectories are these two and the propagation of \<open>ss0_trans\<close>, which has 50 entries,
  the propagated position at each epoch's offset from the launch date.  The epoch of
  \<open>ss0_trans\<close> is the launch date, so the first offset is zero.
\<close>

theorem C9_shared_time_grid:
  assumes "run lib = (Inr ns, lg)"
  shows "N = 50 \<and> length (times_vector ns) = 50 \<and>
     Time ''2011-11-26 15:02'' ''utc'' = Inr (date_launch ns) \<and>
     Time ''2012-08-06 05:17'' ''utc'' = Inr (date_arrival ns) \<and>
     hd (times_vector ns) = date_launch ns \<and> last (times_vector ns) = date_arrival ns \<and>
     length (rr_earth ns) = 50 \<and> length (rr_mars ns) = 50 \<and>
     (\<forall>i<50. ephemeris lib ''jpl'' ''earth'' (times_vector ns ! i)
                = Inr (rr_earth ns ! i, vv_earth ns ! i) \<and>
             ephemeris lib ''jpl'' ''mars'' (times_vector ns ! i)
                = Inr (rr_mars ns ! i, vv_mars ns ! i)) \<and>
     epoch (ss0_trans ns) = date_launch ns \<and>
     times_vector ns ! 0 - epoch (ss0_trans ns) = 0 \<and>
     (\<exists>f2 f3 f4 traj.
        filter is_plotting_call (trace lg) =
          [Ev_plot_trajectory f2 (rr_earth ns) (Body_label Earth) color_earth0,
           Ev_plot_trajectory f3 (rr_mars ns) (Body_label Mars) color_marsf,
           Ev_plot_trajectory f4 traj (Text_label ''MSL trajectory'') color_trans] \<and>
        propagate lib (ss0_trans ns) (map (\<lambda>t. t - epoch (ss0_trans ns)) (times_vector ns))
          = Inr traj \<and>
        length traj = 50 \<and>
        (\<forall>i<50. kepler lib (ss0_trans ns) (times_vector ns ! i - date_launch ns)
                   = Inr (traj ! i)))"
proof -
  note g = run_Inr_grid [OF assms]
  from run_Inr [OF assms] have
    dl: "date_launch ns = 63457916544" and da: "date_arrival ns = 63479827045" and
    e: "get_body_barycentric_posvel lib ''jpl'' ''earth'' (times_vector ns)
          = Inr (rr_earth ns, vv_earth ns)" and
    m: "get_body_barycentric_posvel lib ''jpl'' ''mars'' (times_vector ns)
          = Inr (rr_mars ns, vv_mars ns)" and
    o0: "ss0_trans ns = from_vectors Sun (r0 ns) (va ns) (date_launch ns)"
    by blast+
  from o0 have ep: "epoch (ss0_trans ns) = date_launch ns" by (simp add: from_vectors_def)
  from g have len: "length (times_vector ns) = 50" "length (rr_earth ns) = 50"
    "length (rr_mars ns) = 50" by (simp_all add: N_positive)
  from posvel_nth [OF e] posvel_nth [OF m] len
  have pts: "\<forall>i<50. ephemeris lib ''jpl'' ''earth'' (times_vector ns ! i)
                = Inr (rr_earth ns ! i, vv_earth ns ! i) \<and>
             ephemeris lib ''jpl'' ''mars'' (times_vector ns ! i)
                = Inr (rr_mars ns ! i, vv_mars ns ! i)" by simp
  from run_Inr_trace [OF assms] obtain f2 f3 f4 traj where
    p: "propagate lib (ss0_trans ns) (map (\<lambda>t. t - date_launch ns) (times_vector ns))
          = Inr traj" and
    plots: "filter is_plotting_call (trace lg) =
          [Ev_plot_trajectory f2 (rr_earth ns) (Body_label Earth) color_earth0,
           Ev_plot_trajectory f3 (rr_mars ns) (Body_label Mars) color_marsf,
           Ev_plot_trajectory f4 traj (Text_label ''MSL trajectory'') color_trans]"
    by fastforce
  from traverse_propagate_nth [OF p] len
  have tr: "length traj = 50"
    "\<forall>i<50. kepler lib (ss0_trans ns) (times_vector ns ! i - date_launch ns) = Inr (traj ! i)"
    by simp_all
  from p plots tr have third: "\<exists>f2 f3 f4 traj.
        filter is_plotting_call (trace lg) =
          [Ev_plot_trajectory f2 (rr_earth ns) (Body_label Earth) color_earth0,
           Ev_plot_trajectory f3 (rr_mars ns) (Body_label Mars) color_marsf,
           Ev_plot_trajectory f4 traj (Text_label ''MSL trajectory'') color_trans] \<and>
        propagate lib (ss0_trans ns) (map (\<lambda>t. t - epoch (ss0_trans ns)) (times_vector ns))
          = Inr traj \<and>
        length traj = 50 \<and>
        (\<forall>i<50. kepler lib (ss0_trans ns) (times_vector ns ! i - date_launch ns)
                   = Inr (traj ! i))"
    unfolding ep by blast
  from g ep have zero: "times_vector ns ! 0 - epoch (ss0_trans ns) = 0" by simp
  from N_positive len Time_launch Time_arrival dl da g pts ep zero third
  show ?thesis by simp
qed

theorem C9_shared_time_grid_witness:
  "\<exists>ns lg. run toy_library = (Inr ns, lg) \<and>
     N = 50 \<and> length (times_vector ns) = 50 \<and>
     Time ''2011-11-26 15:02'' ''utc'' = Inr (date_launch ns) \<and>
     Time ''2012-08-06 05:17'' ''utc'' = Inr (date_arrival ns) \<and>
     hd (times_vector ns) = date_launch ns \<and> last (times_vector ns) = date_arrival ns \<and>
     length (rr_earth ns) = 50 \<and> length (rr_mars ns) = 50 \<and>
     (\<forall>i<50. ephemeris toy_library ''jpl'' ''earth'' (times_vector ns ! i)
                = Inr (rr_earth ns ! i, vv_earth ns ! i) \<and>
             ephemeris toy_library ''jpl'' ''mars'' (times_vector ns ! i)
                = Inr (rr_mars ns ! i, vv_mars ns ! i)) \<and>
     epoch (ss0_trans ns) = date_launch ns \<and>
     times_vector ns ! 0 - epoch (ss0_trans ns) = 0 \<and>
     (\<exists>f2 f3 f4 traj.
        filter is_plotting_call (trace lg) =
          [Ev_plot_trajectory f2 (rr_earth ns) (Body_label Earth) color_earth0,
           Ev_plot_trajectory f3 (rr_mars ns) (Body_label Mars) color_marsf,
           Ev_plot_trajectory f4 traj (Text_label ''MSL trajectory'') color_trans] \<and>
        propagate toy_library (ss0_trans ns)
            (map (\<lambda>t. t - epoch (ss0_trans ns)) (times_vector ns))
          = Inr traj \<and>
        length traj = 50 \<and>
        (\<forall>i<50. kepler toy_library (ss0_trans ns) (times_vector ns ! i - date_launch ns)
                   = Inr (traj ! i)))"
proof -
  from run_toy obtain ns lg where r: "run toy_library = (Inr ns, lg)" by blast
  from r C9_shared_time_grid [OF r] show ?thesis by blast
qed

text \<open>
  C10.  \<open>ssf_trans\<close> is assigned in cell 11 and no later cell reads it.  The notebook
  without that assignment makes the same library calls with the same arguments and
  displays the same outputs, in the same order, and it ends the same way: with the same
  exception, or with the same figure and the same values of all other names.
\<close>

theorem C10_ssf_trans_unused:
  "run_without_ssf_trans lib = (map_sum id bindings.truncate (fst (run lib)), snd (run lib))"
  by (auto simp: run_def run_without_ssf_trans_def notebook_def notebook_without_ssf_trans_def
      cell11_def cell11_without_ssf_trans_def stmt_defs bindings.truncate_def
      split: sum.splits prod.splits)

theorem C10_ssf_trans_unused_witness:
  "run_without_ssf_trans toy_library
     = (map_sum id bindings.truncate (fst (run toy_library)), snd (run toy_library))"
  using C10_ssf_trans_unused [of toy_library] .

end
